theory Spec2Isabelle
  imports Main
begin

section \<open>Domain model (internal/domain)\<close>

text \<open>
  Go's \<open>int64\<close> values (product ids, limits, offsets, row counts) are modelled as
  \<open>int\<close>: the service and its adapters pass them on, compare them and print them, and
  do no arithmetic on them that could wrap around. A \<open>[]byte\<close> is a \<open>string\<close> (a list of
  8-bit characters).
\<close>

type_synonym int64 = int
type_synonym bytes = string

text \<open>\<open>domain.NewProduct\<close> and \<open>domain.Product\<close>.\<close>

record NewProduct =
  Name :: string
  AdditionalInfo :: string

record Product =
  Id :: int64
  Name :: string
  AdditionalInfo :: string

text \<open>
  Go \<open>error\<close> values. The four sentinels of \<open>domain/errors.go\<close> are constructors, as are
  the two sentinels of the client libraries the adapters test for (\<open>redis.Nil\<close>,
  \<open>sql.ErrNoRows\<close>). \<open>Foreign msg\<close> is any other error of a library, known by its message
  only. \<open>Errorf pre e suf\<close> is \<open>fmt.Errorf\<close> with one \<open>%w\<close> verb: it wraps \<open>e\<close> and its
  message is \<open>pre\<close>, the message of \<open>e\<close>, \<open>suf\<close>.
\<close>

datatype error =
    ErrNotFound
  | ErrInvalidInput
  | ErrInternalDb
  | ErrInternalCache
  | redis_Nil
  | sql_ErrNoRows
  | Foreign string
  | Errorf string error string

text \<open>\<open>err.Error()\<close>.\<close>

fun Error :: "error \<Rightarrow> string" where
  "Error ErrNotFound = ''product not found''"
| "Error ErrInvalidInput = ''invalid input''"
| "Error ErrInternalDb = ''internal database error''"
| "Error ErrInternalCache = ''internal cache error''"
| "Error redis_Nil = ''redis: nil''"
| "Error sql_ErrNoRows = ''sql: no rows in result set''"
| "Error (Foreign msg) = msg"
| "Error (Errorf pre e suf) = pre @ Error e @ suf"

text \<open>
  \<open>errors.Is(err, target)\<close>: \<open>err\<close> is the target, or wraps an error that is. (Go compares
  by identity; the targets used in this repository are sentinels, for which identity and
  equality of constructors agree.)
\<close>

fun errors_Is :: "error \<Rightarrow> error \<Rightarrow> bool" where
  "errors_Is (Errorf pre e suf) target =
     (Errorf pre e suf = target \<or> errors_Is e target)"
| "errors_Is e target = (e = target)"

text \<open>
  \<open>domain.ServiceError\<close>. A nil \<open>error\<close> is \<open>None\<close>. A \<open>[]error\<close> is a list; the nil slice
  and the empty slice are both \<open>[]\<close> (the service only ever tests a slice that is nil or
  was appended to, so \<open>nonCriticalErrors != nil\<close> is \<open>nonCriticalErrors \<noteq> []\<close>).
\<close>

record ServiceError =
  CriticalError :: "error option"
  NonCriticalErrors :: "error list"

definition NewServiceError :: "error option \<Rightarrow> error list \<Rightarrow> ServiceError" where
  "NewServiceError critical nonCritical =
     \<lparr>CriticalError = critical, NonCriticalErrors = nonCritical\<rparr>"

text \<open>
  \<open>(*ServiceError).Error\<close>: a buffer that receives the header, then one line per
  non-critical error (the \<open>for ... range\<close> loop, a left fold), then the critical error's
  line when there is one.
\<close>

definition newline :: string where
  "newline = [CHR 0x0A]"

definition ServiceError_header :: string where
  "ServiceError_header = ''Service error(s)'' @ newline @ '':''"

definition ServiceError_Error :: "ServiceError \<Rightarrow> string" where
  "ServiceError_Error se =
     (let errMessage = ServiceError_header;
          errMessage = foldl (\<lambda>buf err. buf @ (Error err @ newline)) errMessage
                         (NonCriticalErrors se);
          errMessage = (case CriticalError se of
                          Some critical \<Rightarrow> errMessage @ (Error critical @ newline)
                        | None \<Rightarrow> errMessage)
      in errMessage)"


section \<open>Calls that may panic, and the world they act on\<close>

text \<open>
  A Go call either returns or panics; nothing in this repository recovers, so a panic
  in a callee ends the caller too. \<open>and_then\<close> is sequencing: the second step runs on the
  state the first one left, unless the first panicked.
\<close>

datatype 'a go = Panic string | Return 'a

definition and_then :: "('w \<Rightarrow> 'a go \<times> 'w) \<Rightarrow> ('a \<Rightarrow> 'w \<Rightarrow> 'b go \<times> 'w) \<Rightarrow> 'w \<Rightarrow> 'b go \<times> 'w" where
  "and_then m f w = (case m w of (Panic msg, w') \<Rightarrow> (Panic msg, w') | (Return x, w') \<Rightarrow> f x w')"

definition return :: "'a \<Rightarrow> 'w \<Rightarrow> 'a go \<times> 'w" where
  "return x w = (Return x, w)"


section \<open>Ports (internal/ports)\<close>

text \<open>
  The interfaces \<open>ports.Repository\<close> and \<open>ports.Cache\<close>: records of methods over the
  backend's own state (\<open>'d\<close> for the store, \<open>'c\<close> for the cache). A method returning
  \<open>(value, error)\<close> yields \<open>Inl err\<close> or \<open>Inr value\<close>: both adapters return either a
  value with a nil error or no value with an error, and the service reads the value only
  once it has found the error nil. A method returning only \<open>error\<close> yields \<open>Some err\<close>, or
  \<open>None\<close> for nil. Any method may panic instead of returning.
\<close>

record 'd Repository =
  db_GetProduct :: "int64 \<Rightarrow> 'd \<Rightarrow> (error + Product) go \<times> 'd"
  db_GetAllProducts :: "'d \<Rightarrow> (error + Product list) go \<times> 'd"
  db_GetProductsPaged :: "int64 \<Rightarrow> int64 \<Rightarrow> 'd \<Rightarrow> (error + Product list) go \<times> 'd"
  db_StoreProduct :: "NewProduct \<Rightarrow> 'd \<Rightarrow> (error + int64) go \<times> 'd"
  db_UpdateProductById :: "int64 \<Rightarrow> NewProduct \<Rightarrow> 'd \<Rightarrow> (error + Product) go \<times> 'd"
  db_DeleteProductById :: "int64 \<Rightarrow> 'd \<Rightarrow> (error + Product) go \<times> 'd"
  db_DeleteAllProducts :: "'d \<Rightarrow> (error + int64) go \<times> 'd"

record 'c Cache =
  cache_SetProduct :: "Product \<Rightarrow> 'c \<Rightarrow> error option go \<times> 'c"
  cache_GetJSONProductById :: "int64 \<Rightarrow> 'c \<Rightarrow> (error + bytes) go \<times> 'c"
  cache_DeleteProductById :: "int64 \<Rightarrow> 'c \<Rightarrow> error option go \<times> 'c"
  cache_ClearCache :: "'c \<Rightarrow> error option go \<times> 'c"

text \<open>
  The world a request runs in: the state of the store, the state of the cache, and the
  log of the backend calls made so far, each entry naming the method and its arguments.
\<close>

datatype call =
    DbGetProduct int64
  | DbGetAllProducts
  | DbGetProductsPaged int64 int64
  | DbStoreProduct NewProduct
  | DbUpdateProductById int64 NewProduct
  | DbDeleteProductById int64
  | DbDeleteAllProducts
  | CacheSetProduct Product
  | CacheGetJSONProductById int64
  | CacheDeleteProductById int64
  | CacheClearCache

record ('d, 'c) world =
  db_state :: 'd
  cache_state :: 'c
  calls :: "call list"

text \<open>Invoking a method of the store, or of the cache: it runs on that backend's state and is logged.\<close>

definition call_db :: "call \<Rightarrow> ('d \<Rightarrow> 'a go \<times> 'd) \<Rightarrow> ('d, 'c) world \<Rightarrow> 'a go \<times> ('d, 'c) world" where
  "call_db c m w =
     (case m (db_state w) of (r, d') \<Rightarrow> (r, w\<lparr>db_state := d', calls := calls w @ [c]\<rparr>))"

definition call_cache :: "call \<Rightarrow> ('c \<Rightarrow> 'a go \<times> 'c) \<Rightarrow> ('d, 'c) world \<Rightarrow> 'a go \<times> ('d, 'c) world" where
  "call_cache c m w =
     (case m (cache_state w) of (r, c') \<Rightarrow> (r, w\<lparr>cache_state := c', calls := calls w @ [c]\<rparr>))"


section \<open>The service (internal/service/service.go)\<close>

text \<open>The struct \<open>ResourseService\<close>: a store and a cache.\<close>

record ('d, 'c) ResourseService =
  db :: "'d Repository"
  cache :: "'c Cache"

text \<open>
  \<open>encoding/json.Marshal\<close> on a \<open>*domain.Product\<close> is a parameter of the model,
  \<open>json_Marshal :: Product \<Rightarrow> error + bytes\<close>; the service and the cache adapter both call it.

  A service method returns a pair \<open>(value, *ServiceError)\<close>; a nil slice, nil pointer or nil
  \<open>*ServiceError\<close> is \<open>None\<close>. In \<open>UpdateProductById\<close> and \<open>DeleteProductById\<close> the block
  \<open>if cacheErr != nil { ... }\<close> either returns early (\<open>Inl\<close>) or leaves the list of
  non-critical errors (\<open>Inr\<close>) to the rest of the method.
\<close>

definition GetProductById ::
  "(Product \<Rightarrow> error + bytes) \<Rightarrow> ('d, 'c) ResourseService \<Rightarrow> int64 \<Rightarrow> ('d, 'c) world
     \<Rightarrow> (bytes option \<times> ServiceError option) go \<times> ('d, 'c) world" where
  "GetProductById json_Marshal s pid =
     and_then (call_cache (CacheGetJSONProductById pid) (cache_GetJSONProductById (cache s) pid))
       (\<lambda>cacheR. case cacheR of
          Inr cacheRes \<Rightarrow> return (Some cacheRes, None)
        | Inl cacheErr \<Rightarrow>
            (let nonCriticalErrors = [] @ [cacheErr] in
             and_then (call_db (DbGetProduct pid) (db_GetProduct (db s) pid))
               (\<lambda>dbR. case dbR of
                  Inl dbErr \<Rightarrow> return (None, Some (NewServiceError (Some dbErr) nonCriticalErrors))
                | Inr dbRes \<Rightarrow>
                    and_then (call_cache (CacheSetProduct dbRes) (cache_SetProduct (cache s) dbRes))
                      (\<lambda>err.
                         let nonCriticalErrors =
                               (case err of Some e \<Rightarrow> nonCriticalErrors @ [e]
                                            | None \<Rightarrow> nonCriticalErrors)
                         in case json_Marshal dbRes of
                              Inl err \<Rightarrow>
                                (let marshallingErr = Errorf ''service layer error: '' err '''';
                                     nonCriticalErrors = nonCriticalErrors @ [marshallingErr]
                                 in return (None, Some (NewServiceError (Some marshallingErr)
                                                          nonCriticalErrors)))
                            | Inr res \<Rightarrow>
                                if nonCriticalErrors \<noteq> []
                                then return (Some res, Some (NewServiceError None nonCriticalErrors))
                                else return (Some res, None)))))"

definition GetAllProducts ::
  "('d, 'c) ResourseService \<Rightarrow> ('d, 'c) world
     \<Rightarrow> (Product list option \<times> ServiceError option) go \<times> ('d, 'c) world" where
  "GetAllProducts s =
     and_then (call_db DbGetAllProducts (db_GetAllProducts (db s)))
       (\<lambda>r. case r of
          Inl err \<Rightarrow> return (None, Some (NewServiceError (Some err) []))
        | Inr products \<Rightarrow> return (Some products, None))"

definition GetProductsPaged ::
  "('d, 'c) ResourseService \<Rightarrow> int64 \<Rightarrow> int64 \<Rightarrow> ('d, 'c) world
     \<Rightarrow> (Product list option \<times> ServiceError option) go \<times> ('d, 'c) world" where
  "GetProductsPaged s limit offset =
     and_then (call_db (DbGetProductsPaged limit offset) (db_GetProductsPaged (db s) limit offset))
       (\<lambda>r. case r of
          Inl err \<Rightarrow> return (None, Some (NewServiceError (Some err) []))
        | Inr products \<Rightarrow> return (Some products, None))"

definition CreateProduct ::
  "('d, 'c) ResourseService \<Rightarrow> NewProduct \<Rightarrow> ('d, 'c) world
     \<Rightarrow> (int64 \<times> ServiceError option) go \<times> ('d, 'c) world" where
  "CreateProduct s product =
     and_then (call_db (DbStoreProduct product) (db_StoreProduct (db s) product))
       (\<lambda>r. case r of
          Inl dbErr \<Rightarrow> return (0, Some (NewServiceError (Some dbErr) []))
        | Inr pid \<Rightarrow>
            (let newlyStoredProduct =
                   \<lparr>Id = pid, Name = NewProduct.Name product,
                    AdditionalInfo = NewProduct.AdditionalInfo product\<rparr>
             in and_then (call_cache (CacheSetProduct newlyStoredProduct)
                            (cache_SetProduct (cache s) newlyStoredProduct))
                  (\<lambda>cacheErr. case cacheErr of
                     Some e \<Rightarrow> return (pid, Some (NewServiceError None [e]))
                   | None \<Rightarrow> return (pid, None))))"

definition UpdateProductById ::
  "('d, 'c) ResourseService \<Rightarrow> int64 \<Rightarrow> NewProduct \<Rightarrow> ('d, 'c) world
     \<Rightarrow> (Product option \<times> ServiceError option) go \<times> ('d, 'c) world" where
  "UpdateProductById s pid product =
     and_then (call_cache (CacheDeleteProductById pid) (cache_DeleteProductById (cache s) pid))
       (\<lambda>cacheErr.
          case (case cacheErr of
                  Some e \<Rightarrow>
                    if errors_Is e ErrNotFound then Inr ([] @ [e])
                    else Inl (None, Some (NewServiceError (Some e) []))
                | None \<Rightarrow> Inr [])
          of Inl early \<Rightarrow> return early
           | Inr nonCriticalErrors \<Rightarrow>
               and_then (call_db (DbUpdateProductById pid product)
                           (db_UpdateProductById (db s) pid product))
                 (\<lambda>r. case r of
                    Inl dbErr \<Rightarrow>
                      return (None, Some (NewServiceError (Some dbErr) nonCriticalErrors))
                  | Inr oldProduct \<Rightarrow>
                      if nonCriticalErrors \<noteq> []
                      then return (Some oldProduct, Some (NewServiceError None nonCriticalErrors))
                      else return (Some oldProduct, None)))"

definition DeleteProductById ::
  "('d, 'c) ResourseService \<Rightarrow> int64 \<Rightarrow> ('d, 'c) world
     \<Rightarrow> (Product option \<times> ServiceError option) go \<times> ('d, 'c) world" where
  "DeleteProductById s pid =
     and_then (call_cache (CacheDeleteProductById pid) (cache_DeleteProductById (cache s) pid))
       (\<lambda>cacheErr.
          case (case cacheErr of
                  Some e \<Rightarrow>
                    if errors_Is e ErrNotFound then Inr ([] @ [e])
                    else Inl (None, Some (NewServiceError (Some e) []))
                | None \<Rightarrow> Inr [])
          of Inl early \<Rightarrow> return early
           | Inr nonCriticalErrors \<Rightarrow>
               and_then (call_db (DbDeleteProductById pid) (db_DeleteProductById (db s) pid))
                 (\<lambda>r. case r of
                    Inl dbErr \<Rightarrow>
                      return (None, Some (NewServiceError (Some dbErr) nonCriticalErrors))
                  | Inr deletedProduct \<Rightarrow>
                      if nonCriticalErrors \<noteq> []
                      then return (Some deletedProduct,
                                   Some (NewServiceError None nonCriticalErrors))
                      else return (Some deletedProduct, None)))"

definition DeleteAllProducts ::
  "('d, 'c) ResourseService \<Rightarrow> ('d, 'c) world
     \<Rightarrow> (int64 \<times> ServiceError option) go \<times> ('d, 'c) world" where
  "DeleteAllProducts s =
     and_then (call_cache CacheClearCache (cache_ClearCache (cache s)))
       (\<lambda>cacheErr. case cacheErr of
          Some e \<Rightarrow> return (0, Some (NewServiceError (Some e) []))
        | None \<Rightarrow>
            and_then (call_db DbDeleteAllProducts (db_DeleteAllProducts (db s)))
              (\<lambda>r. case r of
                 Inl dbErr \<Rightarrow> return (0, Some (NewServiceError (Some dbErr) []))
               | Inr rowsDeleted \<Rightarrow> return (rowsDeleted, None)))"



section \<open>Formatting integers\<close>

text \<open>The verb \<open>%d\<close> of \<open>fmt\<close> on an \<open>int64\<close>: decimal digits, a minus sign when negative.\<close>

function show_nat :: "nat \<Rightarrow> string" where
  "show_nat n =
     (if n < 10 then [''0123456789'' ! n]
      else show_nat (n div 10) @ [''0123456789'' ! (n mod 10)])"
  by pat_completeness auto
termination
  by (relation "measure (\<lambda>n. n)") auto

declare show_nat.simps [simp del]

definition show_int :: "int \<Rightarrow> string" where
  "show_int i = (if i < 0 then ''-'' @ show_nat (nat (- i)) else show_nat (nat i))"


section \<open>The cache adapter (internal/adapters/cache/redis.go)\<close>

text \<open>
  The Redis server behind \<open>redis.Client\<close>, as the adapter sees it: a key-value map, and the
  transport faults still to come. Each command is one round trip; a round trip takes the
  next entry of \<open>redis_faults\<close>, fails with that message when the entry is \<open>Some msg\<close>, and
  succeeds when it is \<open>None\<close> or the list is used up. A server with no pending fault is a
  healthy one. (Expiry and eviction under memory pressure are not part of this model:
  the adapter sets no expiry.)
\<close>

record redis =
  kv :: "string \<Rightarrow> bytes option"
  redis_faults :: "string option list"

definition redis_roundtrip :: "redis \<Rightarrow> string option \<times> redis" where
  "redis_roundtrip r =
     (case redis_faults r of [] \<Rightarrow> (None, r) | f # fs \<Rightarrow> (f, r\<lparr>redis_faults := fs\<rparr>))"

text \<open>\<open>client.Set(ctx, key, data, 0).Err()\<close>\<close>

definition client_Set :: "string \<Rightarrow> bytes \<Rightarrow> redis \<Rightarrow> error option \<times> redis" where
  "client_Set key data r =
     (case redis_roundtrip r of
        (Some msg, r') \<Rightarrow> (Some (Foreign msg), r')
      | (None, r') \<Rightarrow> (None, r'\<lparr>kv := (kv r')(key \<mapsto> data)\<rparr>))"

text \<open>\<open>client.Get(ctx, key).Bytes()\<close>: \<open>redis.Nil\<close> when the key is absent.\<close>

definition client_Get :: "string \<Rightarrow> redis \<Rightarrow> (error + bytes) \<times> redis" where
  "client_Get key r =
     (case redis_roundtrip r of
        (Some msg, r') \<Rightarrow> (Inl (Foreign msg), r')
      | (None, r') \<Rightarrow>
          (case kv r' key of None \<Rightarrow> (Inl redis_Nil, r') | Some data \<Rightarrow> (Inr data, r')))"

text \<open>\<open>client.Del(ctx, key).Result()\<close>: the number of keys removed.\<close>

definition client_Del :: "string \<Rightarrow> redis \<Rightarrow> (error + int64) \<times> redis" where
  "client_Del key r =
     (case redis_roundtrip r of
        (Some msg, r') \<Rightarrow> (Inl (Foreign msg), r')
      | (None, r') \<Rightarrow>
          (case kv r' key of
             None \<Rightarrow> (Inr 0, r')
           | Some data \<Rightarrow> (Inr 1, r'\<lparr>kv := (kv r')(key := None)\<rparr>)))"

text \<open>\<open>client.FlushDB(ctx).Result()\<close>\<close>

definition client_FlushDB :: "redis \<Rightarrow> error option \<times> redis" where
  "client_FlushDB r =
     (case redis_roundtrip r of
        (Some msg, r') \<Rightarrow> (Some (Foreign msg), r')
      | (None, r') \<Rightarrow> (None, r'\<lparr>kv := (\<lambda>k. None)\<rparr>))"

definition createKey :: "int64 \<Rightarrow> string" where
  "createKey pid = ''product:'' @ show_int pid"

definition RedisCache_SetProduct ::
  "(Product \<Rightarrow> error + bytes) \<Rightarrow> Product \<Rightarrow> redis \<Rightarrow> error option go \<times> redis" where
  "RedisCache_SetProduct json_Marshal product r =
     (let key = createKey (Id product) in
      case json_Marshal product of
        Inl err \<Rightarrow>
          (Return (Some (Errorf '''' ErrInternalCache
                           ('': error marshalling product: '' @ Error err))), r)
      | Inr data \<Rightarrow>
          (case client_Set key data r of
             (Some err, r') \<Rightarrow>
               (Return (Some (Errorf '''' ErrInternalCache
                                ('': failed to store product to cache: '' @ Error err))), r')
           | (None, r') \<Rightarrow> (Return None, r')))"

definition RedisCache_GetJSONProductById :: "int64 \<Rightarrow> redis \<Rightarrow> (error + bytes) go \<times> redis" where
  "RedisCache_GetJSONProductById pid r =
     (let key = createKey pid in
      case client_Get key r of
        (Inl err, r') \<Rightarrow>
          if errors_Is err redis_Nil
          then (Return (Inl (Errorf '''' ErrNotFound
                               ('': failed to find product '' @ show_int pid @ '' in cache''))), r')
          else (Return (Inl (Errorf '''' ErrInternalCache
                               ('': failed to get product '' @ show_int pid @ '' from cache: ''
                                  @ Error err))), r')
      | (Inr data, r') \<Rightarrow> (Return (Inr data), r'))"

definition RedisCache_DeleteProductById :: "int64 \<Rightarrow> redis \<Rightarrow> error option go \<times> redis" where
  "RedisCache_DeleteProductById pid r =
     (let key = createKey pid in
      case client_Del key r of
        (Inl err, r') \<Rightarrow>
          (Return (Some (Errorf '''' ErrInternalCache
                           ('': failed to delete product '' @ show_int pid @ '' from cache: ''
                              @ Error err))), r')
      | (Inr result, r') \<Rightarrow>
          if result = 0
          then (Return (Some (Errorf '''' ErrNotFound
                                ('': product with id='' @ show_int pid @ '' not found in cache''))), r')
          else (Return None, r'))"

definition RedisCache_ClearCache :: "redis \<Rightarrow> error option go \<times> redis" where
  "RedisCache_ClearCache r =
     (case client_FlushDB r of
        (Some err, r') \<Rightarrow>
          (Return (Some (Errorf '''' ErrInternalCache
                           ('': failed to clear cache: '' @ Error err))), r')
      | (None, r') \<Rightarrow> (Return None, r'))"

text \<open>\<open>*RedisCache\<close> as a \<open>ports.Cache\<close>.\<close>

definition RedisCache :: "(Product \<Rightarrow> error + bytes) \<Rightarrow> redis Cache" where
  "RedisCache json_Marshal =
     \<lparr>cache_SetProduct = RedisCache_SetProduct json_Marshal,
      cache_GetJSONProductById = RedisCache_GetJSONProductById,
      cache_DeleteProductById = RedisCache_DeleteProductById,
      cache_ClearCache = RedisCache_ClearCache\<rparr>"


section \<open>The store adapter (internal/adapters/repository)\<close>

subsection \<open>The database behind \<open>sql.DB\<close>\<close>

text \<open>
  Modelled from the spec: the declaration of the table \<open>products\<close> is not among the
  sources. By the specification a product has an \<open>id\<close>, an integer that the store assigns
  on insert and that identifies it, and two texts, \<open>name\<close> and \<open>additionalInfo\<close>. So the
  table is the list of its rows in scan order, each row a \<open>Product\<close>, with \<open>id\<close> its key,
  filled from the sequence \<open>next_id\<close> when a row is inserted; and \<open>Scan\<close> into a
  \<open>domain.Product\<close> succeeds on every row.

  The PostgreSQL server is modelled as the adapter's statements see it: the committed
  table, and the transport faults still to come, consumed one per round trip as for the
  cache. A statement is one step on the table; other clients of the database act between
  the statements, which matters to the one operation that sends more than one,
  \<open>DeleteAllProducts\<close>. A result set read by \<open>rows.Next\<close> takes a second round trip,
  whose fault is what \<open>rows.Err()\<close> reports.
\<close>

record pg =
  rows :: "Product list"
  next_id :: int64
  pg_faults :: "string option list"

definition pg_roundtrip :: "pg \<Rightarrow> string option \<times> pg" where
  "pg_roundtrip d =
     (case pg_faults d of [] \<Rightarrow> (None, d) | f # fs \<Rightarrow> (f, d\<lparr>pg_faults := fs\<rparr>))"

record rowset =
  fetched :: "Product list"
  rows_Err :: "error option"

definition rows_Scan :: "Product \<Rightarrow> error + Product" where
  "rows_Scan row = Inr row"

text \<open>\<open>SELECT id, name, additional_info FROM products WHERE id = $1\<close>, read by \<open>QueryRow(...).Scan\<close>.\<close>

definition select_by_id :: "int64 \<Rightarrow> pg \<Rightarrow> (error + Product) \<times> pg" where
  "select_by_id pid d =
     (case pg_roundtrip d of
        (Some msg, d') \<Rightarrow> (Inl (Foreign msg), d')
      | (None, d') \<Rightarrow>
          (case find (\<lambda>p. Id p = pid) (rows d') of
             None \<Rightarrow> (Inl sql_ErrNoRows, d')
           | Some p \<Rightarrow> (Inr p, d')))"

text \<open>\<open>SELECT id, name, additional_info FROM products\<close>, through \<open>db.Query\<close>.\<close>

definition select_all :: "pg \<Rightarrow> (error + rowset) \<times> pg" where
  "select_all d =
     (case pg_roundtrip d of
        (Some msg, d') \<Rightarrow> (Inl (Foreign msg), d')
      | (None, d') \<Rightarrow>
          (case pg_roundtrip d' of
             (f, d'') \<Rightarrow> (Inr \<lparr>fetched = rows d'', rows_Err = map_option Foreign f\<rparr>, d'')))"

text \<open>
  \<open>SELECT id, name, additional_info FROM products LIMIT $1 OFFSET $2\<close>: the server skips
  \<open>OFFSET\<close> rows, then returns at most \<open>LIMIT\<close> rows; it rejects a negative \<open>LIMIT\<close> or
  \<open>OFFSET\<close>.
\<close>

definition select_limit_offset :: "int64 \<Rightarrow> int64 \<Rightarrow> pg \<Rightarrow> (error + rowset) \<times> pg" where
  "select_limit_offset lim off d =
     (case pg_roundtrip d of
        (Some msg, d') \<Rightarrow> (Inl (Foreign msg), d')
      | (None, d') \<Rightarrow>
          if lim < 0 then (Inl (Foreign ''pq: LIMIT must not be negative''), d')
          else if off < 0 then (Inl (Foreign ''pq: OFFSET must not be negative''), d')
          else
            (case pg_roundtrip d' of
               (f, d'') \<Rightarrow>
                 (Inr \<lparr>fetched = take (nat lim) (drop (nat off) (rows d'')),
                       rows_Err = map_option Foreign f\<rparr>, d'')))"

text \<open>
  \<open>UPDATE products SET name = $1, additional_info = $2 FROM (SELECT ... WHERE id = $3) as old
  WHERE id = $3 RETURNING id, old.name, old.additional_info\<close>: the row keeps its place and
  the statement returns what it held before.
\<close>

definition update_returning_old :: "string \<Rightarrow> string \<Rightarrow> int64 \<Rightarrow> pg \<Rightarrow> (error + Product) \<times> pg" where
  "update_returning_old name info pid d =
     (case pg_roundtrip d of
        (Some msg, d') \<Rightarrow> (Inl (Foreign msg), d')
      | (None, d') \<Rightarrow>
          (case find (\<lambda>p. Id p = pid) (rows d') of
             None \<Rightarrow> (Inl sql_ErrNoRows, d')
           | Some old \<Rightarrow>
               (Inr \<lparr>Id = Id old, Name = Name old, AdditionalInfo = AdditionalInfo old\<rparr>,
                d'\<lparr>rows := map (\<lambda>p. if Id p = pid
                                       then p\<lparr>Name := name, AdditionalInfo := info\<rparr> else p)
                                (rows d')\<rparr>)))"

text \<open>\<open>DELETE FROM products WHERE id = $1 RETURNING id, name, additional_info\<close>\<close>

definition delete_returning :: "int64 \<Rightarrow> pg \<Rightarrow> (error + Product) \<times> pg" where
  "delete_returning pid d =
     (case pg_roundtrip d of
        (Some msg, d') \<Rightarrow> (Inl (Foreign msg), d')
      | (None, d') \<Rightarrow>
          (case find (\<lambda>p. Id p = pid) (rows d') of
             None \<Rightarrow> (Inl sql_ErrNoRows, d')
           | Some p \<Rightarrow> (Inr p, d'\<lparr>rows := filter (\<lambda>q. Id q \<noteq> pid) (rows d')\<rparr>)))"

text \<open>
  \<open>INSERT INTO products (name, additional_info) VALUES ($1, $2) RETURNING id\<close>: the id is
  the next value of the sequence, which advances even when the insert is rejected because
  a row of that id exists.
\<close>

definition insert_returning_id :: "string \<Rightarrow> string \<Rightarrow> pg \<Rightarrow> (error + int64) \<times> pg" where
  "insert_returning_id name info d =
     (case pg_roundtrip d of
        (Some msg, d') \<Rightarrow> (Inl (Foreign msg), d')
      | (None, d') \<Rightarrow>
          (let pid = next_id d'; d'' = d'\<lparr>next_id := pid + 1\<rparr> in
           if pid \<in> Id ` set (rows d'')
           then (Inl (Foreign ''pq: duplicate key value violates unique constraint''), d'')
           else (Inr pid,
                 d''\<lparr>rows := rows d'' @ [\<lparr>Id = pid, Name = name, AdditionalInfo = info\<rparr>]\<rparr>)))"

text \<open>
  A transaction (\<open>sql.Tx\<close>) at PostgreSQL's default isolation, read committed: each
  statement sees the table as it is committed when the statement starts. \<open>TRUNCATE\<close> locks
  the table against every other client until the transaction ends, and the commit then
  leaves the table empty; a transaction that ends in any other way leaves the table as
  it was. \<open>Rollback\<close> on a finished transaction does nothing.
\<close>

record tx =
  tx_truncated :: bool
  tx_done :: bool

definition db_Begin :: "pg \<Rightarrow> (error + tx) \<times> pg" where
  "db_Begin d =
     (case pg_roundtrip d of
        (Some msg, d') \<Rightarrow> (Inl (Foreign msg), d')
      | (None, d') \<Rightarrow> (Inr \<lparr>tx_truncated = False, tx_done = False\<rparr>, d'))"

text \<open>\<open>SELECT COUNT (*) FROM products\<close> in the transaction.\<close>

definition tx_select_count :: "tx \<Rightarrow> pg \<Rightarrow> (error + int64) \<times> pg" where
  "tx_select_count t d =
     (case pg_roundtrip d of
        (Some msg, d') \<Rightarrow> (Inl (Foreign msg), d')
      | (None, d') \<Rightarrow>
          (Inr (if tx_truncated t then 0 else int (length (rows d'))), d'))"

text \<open>\<open>TRUNCATE TABLE products\<close> in the transaction.\<close>

definition tx_truncate :: "tx \<Rightarrow> pg \<Rightarrow> (error option \<times> tx) \<times> pg" where
  "tx_truncate t d =
     (case pg_roundtrip d of
        (Some msg, d') \<Rightarrow> ((Some (Foreign msg), t), d')
      | (None, d') \<Rightarrow> ((None, t\<lparr>tx_truncated := True\<rparr>), d'))"

definition tx_Commit :: "tx \<Rightarrow> pg \<Rightarrow> (error option \<times> tx) \<times> pg" where
  "tx_Commit t d =
     (case pg_roundtrip d of
        (Some msg, d') \<Rightarrow> ((Some (Foreign msg), t\<lparr>tx_done := True\<rparr>), d')
      | (None, d') \<Rightarrow>
          ((None, t\<lparr>tx_done := True\<rparr>),
           d'\<lparr>rows := (if tx_truncated t then [] else rows d')\<rparr>))"

definition tx_Rollback :: "tx \<Rightarrow> pg \<Rightarrow> pg" where
  "tx_Rollback t d = (if tx_done t then d else snd (pg_roundtrip d))"

subsection \<open>\<open>PostgresRepository\<close>\<close>

text \<open>The loop \<open>for rows.Next() { Scan; append }\<close> over the rows of a result set.\<close>

fun scan_rows :: "Product list \<Rightarrow> Product list \<Rightarrow> error + Product list" where
  "scan_rows products [] = Inr products"
| "scan_rows products (row # rest) =
     (case rows_Scan row of
        Inl err \<Rightarrow>
          Inl (Errorf '''' ErrInternalDb
                 ('': failed to convert row into go type. '' @ Error err))
      | Inr product \<Rightarrow> scan_rows (products @ [product]) rest)"

definition PostgresRepository_GetProduct :: "int64 \<Rightarrow> pg \<Rightarrow> (error + Product) go \<times> pg" where
  "PostgresRepository_GetProduct pid d =
     (case select_by_id pid d of
        (Inl err, d') \<Rightarrow>
          if errors_Is err sql_ErrNoRows
          then (Return (Inl (Errorf '''' ErrNotFound
                               ('': failed to find product '' @ show_int pid @ '' in DB''))), d')
          else (Return (Inl (Errorf '''' ErrInternalDb
                               ('': failed to get product '' @ show_int pid @ ''. ''
                                  @ Error err))), d')
      | (Inr product, d') \<Rightarrow> (Return (Inr product), d'))"

text \<open>
  \<open>make([]domain.Product, 0, cap)\<close>, that is \<open>runtime.makeslice\<close>, in a process to which the
  operating system grants at most \<open>grantable\<close> bytes in one block: a run-time panic when the
  capacity is negative or when \<open>cap\<close> elements take more than \<open>maxAlloc\<close> bytes; the
  runtime's fatal error \<open>out of memory\<close>, which ends the process, when they take more than
  the system grants; otherwise the empty slice with room reserved for \<open>append\<close>. On the
  64-bit platforms the service is built for, a \<open>domain.Product\<close> takes 40 bytes (an \<open>int64\<close>
  and two string headers) and \<open>maxAlloc\<close> is \<open>2^48\<close>. (The runtime multiplies with an
  overflow check; on \<open>int\<close> the product is exact, and a product that would overflow is one
  above \<open>maxAlloc\<close>.) A fatal error is not a panic, but like a panic that nothing recovers
  it leaves the call without a result, and it is a \<open>Panic\<close> value here.
\<close>

definition sizeof_Product :: int where
  "sizeof_Product = 40"

definition maxAlloc :: int where
  "maxAlloc = 2 ^ 48"

definition make_Products :: "nat \<Rightarrow> int64 \<Rightarrow> Product list go" where
  "make_Products grantable cap =
     (if cap < 0 \<or> maxAlloc < sizeof_Product * cap
      then Panic ''runtime error: makeslice: cap out of range''
      else if int grantable < sizeof_Product * cap
      then Panic ''fatal error: out of memory''
      else Return [])"

text \<open>
  \<open>GetAllProducts\<close> makes its slice with \<open>make([]domain.Product, 0)\<close>, which takes no
  memory.
\<close>

definition PostgresRepository_GetAllProducts ::
  "nat \<Rightarrow> pg \<Rightarrow> (error + Product list) go \<times> pg" where
  "PostgresRepository_GetAllProducts grantable d =
     (case make_Products grantable 0 of
        Panic msg \<Rightarrow> (Panic msg, d)
      | Return products \<Rightarrow>
          (case select_all d of
             (Inl err, d') \<Rightarrow>
               (Return (Inl (Errorf '''' ErrInternalDb '': failed to get all products'')), d')
           | (Inr rs, d') \<Rightarrow>
               (case scan_rows products (fetched rs) of
                  Inl e \<Rightarrow> (Return (Inl e), d')
                | Inr products \<Rightarrow>
                    (case rows_Err rs of
                       Some err \<Rightarrow>
                         (Return (Inl (Errorf '''' ErrInternalDb
                                         ('': error while iterating over rows. '' @ Error err))),
                          d')
                     | None \<Rightarrow> (Return (Inr products), d')))))"

text \<open>
  \<open>GetProductsPaged\<close> makes its slice with capacity \<open>limit\<close> before it queries; when \<open>make\<close>
  does not return, the call ends there.
\<close>

definition PostgresRepository_GetProductsPaged ::
  "nat \<Rightarrow> int64 \<Rightarrow> int64 \<Rightarrow> pg \<Rightarrow> (error + Product list) go \<times> pg" where
  "PostgresRepository_GetProductsPaged grantable limit offset d =
     (case make_Products grantable limit of
        Panic msg \<Rightarrow> (Panic msg, d)
      | Return products \<Rightarrow>
          (case select_limit_offset limit offset d of
             (Inl err, d') \<Rightarrow>
               (Return (Inl (Errorf '''' ErrInternalDb
                               ('': failed to get paginated products. '' @ Error err))), d')
           | (Inr rs, d') \<Rightarrow>
               (case scan_rows products (fetched rs) of
                  Inl e \<Rightarrow> (Return (Inl e), d')
                | Inr products \<Rightarrow>
                    (case rows_Err rs of
                       Some err \<Rightarrow>
                         (Return (Inl (Errorf '''' ErrInternalDb
                                         ('': error while iterating over rows. '' @ Error err))),
                          d')
                     | None \<Rightarrow> (Return (Inr products), d')))))"

definition PostgresRepository_UpdateProductById ::
  "int64 \<Rightarrow> NewProduct \<Rightarrow> pg \<Rightarrow> (error + Product) go \<times> pg" where
  "PostgresRepository_UpdateProductById pid product d =
     (case update_returning_old (NewProduct.Name product) (NewProduct.AdditionalInfo product)
             pid d of
        (Inl err, d') \<Rightarrow>
          if errors_Is err sql_ErrNoRows
          then (Return (Inl (Errorf '''' ErrNotFound
                               ('': failed to find product '' @ show_int pid @ '' in DB''))), d')
          else (Return (Inl (Errorf '''' ErrInternalDb
                               ('': failed to update product '' @ show_int pid @ ''. ''
                                  @ Error err))), d')
      | (Inr oldProduct, d') \<Rightarrow> (Return (Inr oldProduct), d'))"

definition PostgresRepository_DeleteProductById :: "int64 \<Rightarrow> pg \<Rightarrow> (error + Product) go \<times> pg" where
  "PostgresRepository_DeleteProductById pid d =
     (case delete_returning pid d of
        (Inl err, d') \<Rightarrow>
          if errors_Is err sql_ErrNoRows
          then (Return (Inl (Errorf '''' ErrNotFound
                               ('': failed to find product '' @ show_int pid @ '' in DB''))), d')
          else (Return (Inl (Errorf '''' ErrInternalDb
                               ('': failed to delete product '' @ show_int pid @ ''. ''
                                  @ Error err))), d')
      | (Inr oldProduct, d') \<Rightarrow> (Return (Inr oldProduct), d'))"

text \<open>
  \<open>DeleteAllProducts\<close>: begin, count, truncate, commit, each step returning \<open>0\<close> and its
  error when it fails; \<open>defer tx.Rollback()\<close> runs on every path once the transaction has
  begun. The transaction is begun with \<open>db.Begin()\<close>, at the default isolation, and takes
  no lock before \<open>TRUNCATE\<close>, so other clients of the database may commit between its
  statements. What they commit before the count is counted like any other row, and once
  \<open>TRUNCATE\<close> holds its lock they wait for the end of the transaction; \<open>others\<close> is what
  they commit between the count and the truncate. With no other client, \<open>others\<close> is
  \<open>alone\<close>.
\<close>

definition alone :: "pg \<Rightarrow> pg" where
  "alone d = d"

definition PostgresRepository_DeleteAllProducts ::
  "(pg \<Rightarrow> pg) \<Rightarrow> pg \<Rightarrow> (error + int64) go \<times> pg" where
  "PostgresRepository_DeleteAllProducts others d =
     (case db_Begin d of
        (Inl err, d1) \<Rightarrow>
          (Return (Inl (Errorf '''' ErrInternalDb
                          ('': failed to start transaction. '' @ Error err))), d1)
      | (Inr t, d1) \<Rightarrow>
          (case tx_select_count t d1 of
             (Inl err, d2) \<Rightarrow>
               (Return (Inl (Errorf '''' ErrInternalDb
                               ('': failed to count rows. '' @ Error err))), tx_Rollback t d2)
           | (Inr count, d2) \<Rightarrow>
               (case tx_truncate t (others d2) of
                  ((Some err, t'), d3) \<Rightarrow>
                    (Return (Inl (Errorf '''' ErrInternalDb
                                    ('': failed to truncate table. '' @ Error err))),
                     tx_Rollback t' d3)
                | ((None, t'), d3) \<Rightarrow>
                    (case tx_Commit t' d3 of
                       ((Some err, t''), d4) \<Rightarrow>
                         (Return (Inl (Errorf '''' ErrInternalDb
                                         ('': failed to commit transaction. '' @ Error err))),
                          tx_Rollback t'' d4)
                     | ((None, t''), d4) \<Rightarrow> (Return (Inr count), tx_Rollback t'' d4)))))"

definition PostgresRepository_StoreProduct :: "NewProduct \<Rightarrow> pg \<Rightarrow> (error + int64) go \<times> pg" where
  "PostgresRepository_StoreProduct product d =
     (case insert_returning_id (NewProduct.Name product) (NewProduct.AdditionalInfo product) d of
        (Inl err, d') \<Rightarrow>
          (Return (Inl (Errorf '''' ErrInternalDb
                          ('': failed to store product. '' @ Error err))), d')
      | (Inr pid, d') \<Rightarrow> (Return (Inr pid), d'))"

text \<open>
  \<open>*PostgresRepository\<close> as a \<open>ports.Repository\<close>, in its surroundings: the memory the
  operating system grants its process, and the other clients of its database.
\<close>

definition PostgresRepository :: "nat \<Rightarrow> (pg \<Rightarrow> pg) \<Rightarrow> pg Repository" where
  "PostgresRepository grantable others =
     \<lparr>db_GetProduct = PostgresRepository_GetProduct,
      db_GetAllProducts = PostgresRepository_GetAllProducts grantable,
      db_GetProductsPaged = PostgresRepository_GetProductsPaged grantable,
      db_StoreProduct = PostgresRepository_StoreProduct,
      db_UpdateProductById = PostgresRepository_UpdateProductById,
      db_DeleteProductById = PostgresRepository_DeleteProductById,
      db_DeleteAllProducts = PostgresRepository_DeleteAllProducts others\<rparr>"

text \<open>
  Another client of the database, for instance a concurrent \<open>CreateProduct\<close> of this
  service: its \<open>StoreProduct\<close>, committed.
\<close>

definition other_client_stores :: "NewProduct \<Rightarrow> pg \<Rightarrow> pg" where
  "other_client_stores product d = snd (PostgresRepository_StoreProduct product d)"


section \<open>The handler's paged listing (internal/routing)\<close>

text \<open>
  The paged branch of \<open>ProductHandler.GetProducts\<close>, from the point where both query
  parameters have parsed as integers. \<open>parseAndValidate\<close> rejects a value below its lower
  bound, which is 1 for \<open>offset\<close> and for \<open>limit\<close>; then the handler calls
  \<open>h.svc.GetProductsPaged(r.Context(), offsetInt, limitInt)\<close>, the parsed offset first and
  the parsed limit second, where the service's parameters are \<open>(limit, offset)\<close>. Of the
  response, its status is modelled and, for 200, the products it encodes.
\<close>

datatype response =
    StatusBadRequest string
  | StatusInternalServerError
  | StatusOK "Product list option"

definition ProductHandler_GetProducts_paged ::
  "('d, 'c) ResourseService \<Rightarrow> int64 \<Rightarrow> int64 \<Rightarrow> ('d, 'c) world
     \<Rightarrow> response go \<times> ('d, 'c) world" where
  "ProductHandler_GetProducts_paged svc offsetInt limitInt =
     (if offsetInt < 1 then return (StatusBadRequest ''Invalid offset'')
      else if limitInt < 1 then return (StatusBadRequest ''Invalid limit'')
      else
        and_then (GetProductsPaged svc offsetInt limitInt)
          (\<lambda>(products, serviceErr).
             case serviceErr of
               Some se \<Rightarrow>
                 if CriticalError se \<noteq> None then return StatusInternalServerError
                 else return (StatusOK products)
             | None \<Rightarrow> return (StatusOK products)))"


section \<open>The rendering the specification describes\<close>

text \<open>
  The text of an aggregated result in the specification's words: every non-critical
  message in order, then the critical message if there is one, one message per line, and
  nothing else. It is compared with \<open>ServiceError_Error\<close> below.
\<close>

definition spec_render :: "ServiceError \<Rightarrow> string" where
  "spec_render se =
     concat (map (\<lambda>e. Error e @ newline) (NonCriticalErrors se))
       @ (case CriticalError se of Some critical \<Rightarrow> Error critical @ newline | None \<Rightarrow> [])"


section \<open>The round trips of a bulk delete\<close>

text \<open>
  The repository's \<open>DeleteAllProducts\<close> makes four round trips (begin, count, truncate,
  commit); this holds when no fault is pending for any of them.
\<close>

definition four_round_trips_ok :: "pg \<Rightarrow> bool" where
  "four_round_trips_ok d = list_all (\<lambda>f. f = None) (take 4 (pg_faults d))"


section \<open>Concrete inputs\<close>

text \<open>
  A stand-in for \<open>encoding/json.Marshal\<close> to run the model on concrete products: the object
  with the three fields in declaration order, the strings written without escapes. It
  agrees with \<open>encoding/json\<close> on strings that need no escaping.
\<close>

definition json_Marshal_plain :: "Product \<Rightarrow> error + bytes" where
  \<open>json_Marshal_plain p =
     Inr (''{"id":'' @ show_int (Id p) @ '',"name":"'' @ Name p
            @ ''","additionalInfo":"'' @ AdditionalInfo p @ ''"}'')\<close>

text \<open>A marshaller that fails, to reach the branches that handle its error.\<close>

definition json_Marshal_failing :: "Product \<Rightarrow> error + bytes" where
  "json_Marshal_failing p = Inl (Foreign ''json: unsupported value'')"

text \<open>A process to which the system grants a gibibyte, and a database with no other client.\<close>

definition example_grantable :: nat where
  "example_grantable = 2 ^ 30"

definition example_service :: "(pg, redis) ResourseService" where
  "example_service =
     \<lparr>db = PostgresRepository example_grantable alone,
      cache = RedisCache json_Marshal_plain\<rparr>"

text \<open>
  The same service while another client stores a product \<open>B\<close> between the count and the
  truncate of a bulk delete.
\<close>

definition example_service_beside :: "(pg, redis) ResourseService" where
  "example_service_beside =
     \<lparr>db = PostgresRepository example_grantable
             (other_client_stores \<lparr>NewProduct.Name = ''B'', AdditionalInfo = ''infoB''\<rparr>),
      cache = RedisCache json_Marshal_plain\<rparr>"

definition product_44 :: Product where
  "product_44 = \<lparr>Id = 44, Name = ''A'', AdditionalInfo = ''infoA''\<rparr>"

definition doc_44 :: bytes where
  \<open>doc_44 = ''{"id":44,"name":"A","additionalInfo":"infoA"}''\<close>

text \<open>The store holds product 44, the cache is empty, both are healthy.\<close>

definition world_44 :: "(pg, redis) world" where
  "world_44 =
     \<lparr>db_state = \<lparr>rows = [product_44], next_id = 45, pg_faults = []\<rparr>,
      cache_state = \<lparr>kv = (\<lambda>k. None), redis_faults = []\<rparr>,
      calls = []\<rparr>"

text \<open>The same world once a read of product 44 has filled the cache.\<close>

definition world_44_cached :: "(pg, redis) world" where
  "world_44_cached =
     \<lparr>db_state = \<lparr>rows = [product_44], next_id = 45, pg_faults = []\<rparr>,
      cache_state = \<lparr>kv = (\<lambda>k. None)(createKey 44 \<mapsto> doc_44), redis_faults = []\<rparr>,
      calls = [CacheGetJSONProductById 44, DbGetProduct 44, CacheSetProduct product_44]\<rparr>"

text \<open>The same world with the cache unreachable for its next command.\<close>

definition world_44_cache_down :: "(pg, redis) world" where
  "world_44_cache_down =
     \<lparr>db_state = \<lparr>rows = [product_44], next_id = 45, pg_faults = []\<rparr>,
      cache_state = \<lparr>kv = (\<lambda>k. None), redis_faults = [Some ''dial tcp: connection refused'']\<rparr>,
      calls = []\<rparr>"

text \<open>The same world with the store unreachable for its next round trip.\<close>

definition world_44_store_down :: "(pg, redis) world" where
  "world_44_store_down =
     \<lparr>db_state = \<lparr>rows = [product_44], next_id = 45,
                  pg_faults = [Some ''dial tcp: connection refused'']\<rparr>,
      cache_state = \<lparr>kv = (\<lambda>k. None), redis_faults = []\<rparr>,
      calls = []\<rparr>"

text \<open>A store of five products, an empty cache.\<close>

definition five_products :: "Product list" where
  "five_products =
     [\<lparr>Id = 1, Name = ''p1'', AdditionalInfo = ''i1''\<rparr>,
      \<lparr>Id = 3, Name = ''p3'', AdditionalInfo = ''i3''\<rparr>,
      \<lparr>Id = 7, Name = ''p7'', AdditionalInfo = ''i7''\<rparr>,
      \<lparr>Id = 11, Name = ''p11'', AdditionalInfo = ''i11''\<rparr>,
      \<lparr>Id = 12, Name = ''p12'', AdditionalInfo = ''i12''\<rparr>]"

definition world_five :: "(pg, redis) world" where
  "world_five =
     \<lparr>db_state = \<lparr>rows = five_products, next_id = 13, pg_faults = []\<rparr>,
      cache_state = \<lparr>kv = (\<lambda>k. None), redis_faults = []\<rparr>,
      calls = []\<rparr>"


section \<open>Facts used throughout\<close>

lemmas svc_defs = and_then_def call_cache_def call_db_def return_def NewServiceError_def Let_def

lemmas redis_defs = RedisCache_def RedisCache_SetProduct_def RedisCache_GetJSONProductById_def
  RedisCache_DeleteProductById_def RedisCache_ClearCache_def client_Set_def client_Get_def
  client_Del_def client_FlushDB_def redis_roundtrip_def

lemmas pg_defs = PostgresRepository_def PostgresRepository_GetProduct_def
  PostgresRepository_GetAllProducts_def PostgresRepository_GetProductsPaged_def
  PostgresRepository_UpdateProductById_def PostgresRepository_DeleteProductById_def
  PostgresRepository_DeleteAllProducts_def PostgresRepository_StoreProduct_def
  select_by_id_def select_all_def select_limit_offset_def update_returning_old_def
  delete_returning_def insert_returning_id_def db_Begin_def tx_select_count_def
  tx_truncate_def tx_Commit_def tx_Rollback_def pg_roundtrip_def rows_Scan_def
  make_Products_def sizeof_Product_def maxAlloc_def alone_def other_client_stores_def

lemmas example_defs = example_service_def example_service_beside_def example_grantable_def
  world_44_def world_44_cached_def
  world_44_cache_down_def world_44_store_down_def world_five_def five_products_def
  product_44_def doc_44_def json_Marshal_plain_def json_Marshal_failing_def
  show_int_def show_nat.simps

lemma scan_rows_all: "scan_rows products rs = Inr (products @ rs)"
  by (induction rs arbitrary: products) (simp_all add: rows_Scan_def)

lemma foldl_lines:
  "foldl (\<lambda>buf err. buf @ (Error err @ newline)) acc es
     = acc @ concat (map (\<lambda>e. Error e @ newline) es)"
  by (induction es arbitrary: acc) simp_all


section \<open>Reading a product\<close>

text \<open>
  C6. For every id whose cache lookup succeeds, \<open>GetProductById\<close> returns the cached
  payload unchanged with a nil \<open>*ServiceError\<close>, and does not invoke the store: the only
  backend call it adds to the log is the cache lookup, and the state of the store is the
  one it started from, whatever the store is.
\<close>

theorem GetProductById_cache_hit:
  assumes "cache_GetJSONProductById (cache s) pid (cache_state w) = (Return (Inr cacheRes), c')"
  shows "GetProductById json_Marshal s pid w =
           (Return (Some cacheRes, None),
            w\<lparr>cache_state := c', calls := calls w @ [CacheGetJSONProductById pid]\<rparr>)"
  using assms by (simp add: GetProductById_def svc_defs)

theorem GetProductById_cache_hit_witness:
  "cache_GetJSONProductById (cache example_service) 44 (cache_state world_44_cached)
     = (Return (Inr doc_44), cache_state world_44_cached)
   \<and> GetProductById json_Marshal_plain example_service 44 world_44_cached
     = (Return (Some doc_44, None),
        world_44_cached\<lparr>calls := calls world_44_cached @ [CacheGetJSONProductById 44]\<rparr>)"
proof -
  have hit: "cache_GetJSONProductById (cache example_service) 44 (cache_state world_44_cached)
               = (Return (Inr doc_44), cache_state world_44_cached)"
    by (simp add: example_service_def world_44_cached_def redis_defs)
  from hit GetProductById_cache_hit [OF hit, of json_Marshal_plain] show ?thesis
    by simp
qed

text \<open>
  C1, as the code has it. For every id that the cache lookup does not find (the lookup
  returns an error) and that the store holds, \<open>GetProductById\<close> writes the store's product
  to the cache and, serialization succeeding, returns the serialized product with no
  critical error. The lookup's error is always the first non-critical error: it is the
  only one when the repopulation write succeeds, and the write's error follows it when
  the write fails.
\<close>

theorem GetProductById_cache_miss_store_hit:
  assumes "cache_GetJSONProductById (cache s) pid (cache_state w) = (Return (Inl cacheErr), c1)"
      and "db_GetProduct (db s) pid (db_state w) = (Return (Inr dbRes), d1)"
      and "cache_SetProduct (cache s) dbRes c1 = (Return setErr, c2)"
      and "json_Marshal dbRes = Inr res"
  shows "GetProductById json_Marshal s pid w =
           (Return (Some res,
                    Some \<lparr>CriticalError = None,
                          NonCriticalErrors =
                            cacheErr # (case setErr of None \<Rightarrow> [] | Some e \<Rightarrow> [e])\<rparr>),
            w\<lparr>db_state := d1, cache_state := c2,
              calls := calls w @ [CacheGetJSONProductById pid, DbGetProduct pid,
                                  CacheSetProduct dbRes]\<rparr>)"
  using assms by (simp add: GetProductById_def svc_defs split: option.splits)

theorem GetProductById_cache_miss_store_hit_witness:
  "cache_GetJSONProductById (cache example_service) 44 (cache_state world_44)
     = (Return (Inl (Errorf '''' ErrNotFound '': failed to find product 44 in cache'')),
        cache_state world_44)
   \<and> db_GetProduct (db example_service) 44 (db_state world_44)
     = (Return (Inr product_44), db_state world_44)
   \<and> cache_SetProduct (cache example_service) product_44 (cache_state world_44)
     = (Return None, cache_state world_44_cached)
   \<and> json_Marshal_plain product_44 = Inr doc_44
   \<and> GetProductById json_Marshal_plain example_service 44 world_44
     = (Return (Some doc_44,
                Some \<lparr>CriticalError = None,
                      NonCriticalErrors =
                        [Errorf '''' ErrNotFound '': failed to find product 44 in cache'']\<rparr>),
        world_44_cached)"
proof -
  have miss: "cache_GetJSONProductById (cache example_service) 44 (cache_state world_44)
      = (Return (Inl (Errorf '''' ErrNotFound '': failed to find product 44 in cache'')),
         cache_state world_44)"
    by (simp add: example_defs redis_defs)
  have held: "db_GetProduct (db example_service) 44 (db_state world_44)
      = (Return (Inr product_44), db_state world_44)"
    by (simp add: example_defs pg_defs)
  have filled: "cache_SetProduct (cache example_service) product_44 (cache_state world_44)
      = (Return None, cache_state world_44_cached)"
    by (simp add: example_defs redis_defs createKey_def)
  have doc: "json_Marshal_plain product_44 = Inr doc_44"
    by (simp add: example_defs)
  have after: "world_44\<lparr>db_state := db_state world_44, cache_state := cache_state world_44_cached,
                  calls := calls world_44 @ [CacheGetJSONProductById 44, DbGetProduct 44,
                                             CacheSetProduct product_44]\<rparr> = world_44_cached"
    by (simp add: world_44_def world_44_cached_def)
  from GetProductById_cache_miss_store_hit
      [where json_Marshal = json_Marshal_plain, OF miss held filled doc]
    miss held filled doc after
  show ?thesis by simp
qed

text \<open>
  C1 as stated fails. The store holds product 44, the cache is healthy and has no entry
  for it: the read returns the product and fills the cache, yet the result carries one
  non-critical error, the cache's \<open>not found\<close>.
\<close>

theorem GetProductById_cache_miss_counterexample:
  "GetProductById json_Marshal_plain example_service 44 world_44
     = (Return (Some doc_44,
                Some \<lparr>CriticalError = None,
                      NonCriticalErrors =
                        [Errorf '''' ErrNotFound '': failed to find product 44 in cache'']\<rparr>),
        world_44_cached)
   \<and> kv (cache_state world_44_cached) (createKey 44) = Some doc_44
   \<and> redis_faults (cache_state world_44) = []"
  by (simp add: GetProductById_def svc_defs example_defs redis_defs pg_defs createKey_def)

text \<open>
  C10. In \<open>GetProductById\<close>, when the cache lookup fails, the store returns the product and
  its serialization fails, the call returns a nil value; the marshalling error, wrapped as
  \<open>service layer error: ...\<close>, is the critical error and is also the last entry of the
  non-critical list, after the cache lookup's error (and the cache write's, if that
  failed too).
\<close>

theorem GetProductById_marshal_failure:
  assumes "cache_GetJSONProductById (cache s) pid (cache_state w) = (Return (Inl cacheErr), c1)"
      and "db_GetProduct (db s) pid (db_state w) = (Return (Inr dbRes), d1)"
      and "cache_SetProduct (cache s) dbRes c1 = (Return setErr, c2)"
      and "json_Marshal dbRes = Inl err"
  shows "GetProductById json_Marshal s pid w =
           (Return (None,
                    Some \<lparr>CriticalError = Some (Errorf ''service layer error: '' err ''''),
                          NonCriticalErrors =
                            [cacheErr] @ (case setErr of None \<Rightarrow> [] | Some e \<Rightarrow> [e])
                              @ [Errorf ''service layer error: '' err '''']\<rparr>),
            w\<lparr>db_state := d1, cache_state := c2,
              calls := calls w @ [CacheGetJSONProductById pid, DbGetProduct pid,
                                  CacheSetProduct dbRes]\<rparr>)"
  using assms by (simp add: GetProductById_def svc_defs split: option.splits)

theorem GetProductById_marshal_failure_witness:
  "fst (GetProductById json_Marshal_failing
          \<lparr>db = PostgresRepository example_grantable alone,
            cache = RedisCache json_Marshal_failing\<rparr> 44 world_44)
     = Return (None,
         Some \<lparr>CriticalError =
                 Some (Errorf ''service layer error: '' (Foreign ''json: unsupported value'') ''''),
               NonCriticalErrors =
                 [Errorf '''' ErrNotFound '': failed to find product 44 in cache'',
                  Errorf '''' ErrInternalCache
                    '': error marshalling product: json: unsupported value'',
                  Errorf ''service layer error: '' (Foreign ''json: unsupported value'') '''']\<rparr>)"
proof -
  let ?s = "\<lparr>db = PostgresRepository example_grantable alone,
            cache = RedisCache json_Marshal_failing\<rparr>"
  have miss: "cache_GetJSONProductById (cache ?s) 44 (cache_state world_44)
      = (Return (Inl (Errorf '''' ErrNotFound '': failed to find product 44 in cache'')),
         cache_state world_44)"
    by (simp add: example_defs redis_defs)
  have held: "db_GetProduct (db ?s) 44 (db_state world_44)
      = (Return (Inr product_44), db_state world_44)"
    by (simp add: example_defs pg_defs)
  have unfilled: "cache_SetProduct (cache ?s) product_44 (cache_state world_44)
      = (Return (Some (Errorf '''' ErrInternalCache
                         '': error marshalling product: json: unsupported value'')),
         cache_state world_44)"
    by (simp add: example_defs redis_defs)
  have nodoc: "json_Marshal_failing product_44 = Inl (Foreign ''json: unsupported value'')"
    by (simp add: example_defs)
  from GetProductById_marshal_failure
      [where json_Marshal = json_Marshal_failing, OF miss held unfilled nodoc]
  show ?thesis
    by simp
qed


section \<open>Creating, updating and deleting a product\<close>

text \<open>
  C7. For every \<open>NewProduct\<close>: if the store's insert fails, \<open>CreateProduct\<close> returns id 0
  with that failure as the critical error and attempts no cache write (the insert is the
  only call added to the log, the cache's state is untouched); if the insert succeeds,
  the id the store assigned is returned whatever the cache write does, and a failed cache
  write appears as the single non-critical error next to it.
\<close>

theorem CreateProduct_outcomes:
  "(db_StoreProduct (db s) product (db_state w) = (Return (Inl dbErr), d') \<longrightarrow>
      CreateProduct s product w =
        (Return (0, Some \<lparr>CriticalError = Some dbErr, NonCriticalErrors = []\<rparr>),
         w\<lparr>db_state := d', calls := calls w @ [DbStoreProduct product]\<rparr>))
   \<and> (db_StoreProduct (db s) product (db_state w) = (Return (Inr pid), d') \<and>
      cache_SetProduct (cache s)
        \<lparr>Id = pid, Name = NewProduct.Name product,
         AdditionalInfo = NewProduct.AdditionalInfo product\<rparr> (cache_state w)
        = (Return cacheErr, c') \<longrightarrow>
      CreateProduct s product w =
        (Return (pid, case cacheErr of
                        None \<Rightarrow> None
                      | Some e \<Rightarrow> Some \<lparr>CriticalError = None, NonCriticalErrors = [e]\<rparr>),
         w\<lparr>db_state := d', cache_state := c',
           calls := calls w @ [DbStoreProduct product,
                               CacheSetProduct \<lparr>Id = pid, Name = NewProduct.Name product,
                                 AdditionalInfo = NewProduct.AdditionalInfo product\<rparr>]\<rparr>))"
  by (auto simp add: CreateProduct_def svc_defs split: option.splits)

theorem CreateProduct_outcomes_witness:
  "CreateProduct example_service \<lparr>NewProduct.Name = ''B'', AdditionalInfo = ''infoB''\<rparr>
       world_44_store_down
     = (Return (0, Some \<lparr>CriticalError =
                            Some (Errorf '''' ErrInternalDb
                              '': failed to store product. dial tcp: connection refused''),
                          NonCriticalErrors = []\<rparr>),
        world_44\<lparr>calls := [DbStoreProduct
                              \<lparr>NewProduct.Name = ''B'', AdditionalInfo = ''infoB''\<rparr>]\<rparr>)
   \<and> fst (CreateProduct example_service \<lparr>NewProduct.Name = ''B'', AdditionalInfo = ''infoB''\<rparr>
            world_44_cache_down)
     = Return (45, Some \<lparr>CriticalError = None,
                          NonCriticalErrors =
                            [Errorf '''' ErrInternalCache
                               '': failed to store product to cache: dial tcp: connection refused'']\<rparr>)"
proof -
  let ?np = "\<lparr>NewProduct.Name = ''B'', AdditionalInfo = ''infoB''\<rparr>"
  let ?d = "\<lparr>rows = [product_44, \<lparr>Id = 45, Name = ''B'', AdditionalInfo = ''infoB''\<rparr>],
             next_id = 46, pg_faults = []\<rparr>"
  have refused: "db_StoreProduct (db example_service) ?np (db_state world_44_store_down)
      = (Return (Inl (Errorf '''' ErrInternalDb
                        '': failed to store product. dial tcp: connection refused'')),
         db_state world_44)"
    by (simp add: example_defs pg_defs)
  have stored: "db_StoreProduct (db example_service) ?np (db_state world_44_cache_down)
      = (Return (Inr 45), ?d)"
    by (simp add: example_defs pg_defs)
  have unset: "cache_SetProduct (cache example_service)
        \<lparr>Id = 45, Name = NewProduct.Name ?np, AdditionalInfo = NewProduct.AdditionalInfo ?np\<rparr>
        (cache_state world_44_cache_down)
      = (Return (Some (Errorf '''' ErrInternalCache
           '': failed to store product to cache: dial tcp: connection refused'')),
         cache_state world_44)"
    by (simp add: example_defs redis_defs)
  have same: "world_44_store_down\<lparr>db_state := db_state world_44,
                 calls := calls world_44_store_down @ [DbStoreProduct ?np]\<rparr>
              = world_44\<lparr>calls := [DbStoreProduct ?np]\<rparr>"
    by (simp add: world_44_def world_44_store_down_def)
  from CreateProduct_outcomes
         [where s = example_service and product = ?np and w = world_44_store_down,
          THEN conjunct1, rule_format, OF refused]
       CreateProduct_outcomes
         [where s = example_service and product = ?np and w = world_44_cache_down,
          THEN conjunct2, rule_format, OF conjI [OF stored unset]]
       same
  show ?thesis by simp
qed

text \<open>
  C2. For every id, in \<open>UpdateProductById\<close> and in \<open>DeleteProductById\<close>: if the cache
  invalidation returns an error that is \<open>ErrNotFound\<close>, the store is still called, and
  when the store succeeds the operation returns the store's value with exactly that one
  non-critical error (when the store fails, its error is critical and the value is
  nil); if the cache invalidation returns any other error, the store is not called
  (the invalidation is the only call added to the log, the store's state is untouched)
  and that error is returned as critical with a nil value.
\<close>

theorem invalidate_then_write:
  "(cache_DeleteProductById (cache s) pid (cache_state w) = (Return (Some cacheErr), c') \<and>
    errors_Is cacheErr ErrNotFound \<and>
    db_UpdateProductById (db s) pid product (db_state w) = (Return r, d') \<longrightarrow>
      UpdateProductById s pid product w =
        (Return (case r of
                   Inr oldProduct \<Rightarrow>
                     (Some oldProduct,
                      Some \<lparr>CriticalError = None, NonCriticalErrors = [cacheErr]\<rparr>)
                 | Inl dbErr \<Rightarrow>
                     (None, Some \<lparr>CriticalError = Some dbErr, NonCriticalErrors = [cacheErr]\<rparr>)),
         w\<lparr>db_state := d', cache_state := c',
           calls := calls w @ [CacheDeleteProductById pid, DbUpdateProductById pid product]\<rparr>))
   \<and> (cache_DeleteProductById (cache s) pid (cache_state w) = (Return (Some cacheErr), c') \<and>
      \<not> errors_Is cacheErr ErrNotFound \<longrightarrow>
      UpdateProductById s pid product w =
        (Return (None, Some \<lparr>CriticalError = Some cacheErr, NonCriticalErrors = []\<rparr>),
         w\<lparr>cache_state := c', calls := calls w @ [CacheDeleteProductById pid]\<rparr>))
   \<and> (cache_DeleteProductById (cache s) pid (cache_state w) = (Return (Some cacheErr), c') \<and>
      errors_Is cacheErr ErrNotFound \<and>
      db_DeleteProductById (db s) pid (db_state w) = (Return r, d') \<longrightarrow>
      DeleteProductById s pid w =
        (Return (case r of
                   Inr deletedProduct \<Rightarrow>
                     (Some deletedProduct,
                      Some \<lparr>CriticalError = None, NonCriticalErrors = [cacheErr]\<rparr>)
                 | Inl dbErr \<Rightarrow>
                     (None, Some \<lparr>CriticalError = Some dbErr, NonCriticalErrors = [cacheErr]\<rparr>)),
         w\<lparr>db_state := d', cache_state := c',
           calls := calls w @ [CacheDeleteProductById pid, DbDeleteProductById pid]\<rparr>))
   \<and> (cache_DeleteProductById (cache s) pid (cache_state w) = (Return (Some cacheErr), c') \<and>
      \<not> errors_Is cacheErr ErrNotFound \<longrightarrow>
      DeleteProductById s pid w =
        (Return (None, Some \<lparr>CriticalError = Some cacheErr, NonCriticalErrors = []\<rparr>),
         w\<lparr>cache_state := c', calls := calls w @ [CacheDeleteProductById pid]\<rparr>))"
  by (simp add: UpdateProductById_def DeleteProductById_def svc_defs split: sum.splits)

theorem invalidate_then_write_witness:
  "fst (UpdateProductById example_service 44
          \<lparr>NewProduct.Name = ''B'', AdditionalInfo = ''infoB''\<rparr> world_44)
     = Return (Some product_44,
               Some \<lparr>CriticalError = None,
                     NonCriticalErrors =
                       [Errorf '''' ErrNotFound '': product with id=44 not found in cache'']\<rparr>)
   \<and> DeleteProductById example_service 44 world_44_cache_down
     = (Return (None,
                Some \<lparr>CriticalError =
                        Some (Errorf '''' ErrInternalCache
                          '': failed to delete product 44 from cache: dial tcp: connection refused''),
                      NonCriticalErrors = []\<rparr>),
        world_44\<lparr>calls := [CacheDeleteProductById 44]\<rparr>)"
proof -
  let ?np = "\<lparr>NewProduct.Name = ''B'', AdditionalInfo = ''infoB''\<rparr>"
  let ?nf = "Errorf '''' ErrNotFound '': product with id=44 not found in cache''"
  let ?down = "Errorf '''' ErrInternalCache
                 '': failed to delete product 44 from cache: dial tcp: connection refused''"
  have absent: "cache_DeleteProductById (cache example_service) 44 (cache_state world_44)
      = (Return (Some ?nf), cache_state world_44)"
    by (simp add: example_defs redis_defs)
  have is_nf: "errors_Is ?nf ErrNotFound"
    by simp
  have updated: "db_UpdateProductById (db example_service) 44 ?np (db_state world_44)
      = (Return (Inr product_44),
         \<lparr>rows = [\<lparr>Id = 44, Name = ''B'', AdditionalInfo = ''infoB''\<rparr>], next_id = 45,
          pg_faults = []\<rparr>)"
    by (simp add: example_defs pg_defs)
  have down: "cache_DeleteProductById (cache example_service) 44 (cache_state world_44_cache_down)
      = (Return (Some ?down), cache_state world_44)"
    by (simp add: example_defs redis_defs)
  have not_nf: "\<not> errors_Is ?down ErrNotFound"
    by simp
  have same: "world_44_cache_down\<lparr>cache_state := cache_state world_44,
                 calls := calls world_44_cache_down @ [CacheDeleteProductById 44]\<rparr>
              = world_44\<lparr>calls := [CacheDeleteProductById 44]\<rparr>"
    by (simp add: world_44_def world_44_cache_down_def)
  from invalidate_then_write
         [where s = example_service and pid = 44 and w = world_44 and product = ?np,
          THEN conjunct1, rule_format, OF conjI [OF absent conjI [OF is_nf updated]]]
       invalidate_then_write
         [where s = example_service and pid = 44 and w = world_44_cache_down,
          THEN conjunct2, THEN conjunct2, THEN conjunct2, rule_format,
          OF conjI [OF down not_nf]]
       same
  show ?thesis by simp
qed


section \<open>Rendering an aggregated result\<close>

text \<open>
  C8, as the code has it. The text of a \<open>ServiceError\<close> is the fixed header
  \<open>Service error(s)\<close>, a line break and a colon, followed by what the specification
  describes: each non-critical message in the order of the list, then the critical
  message if there is one, each message ended by a line break.
\<close>

theorem ServiceError_Error_shape:
  "ServiceError_Error se = ServiceError_header @ spec_render se"
  by (simp add: ServiceError_Error_def spec_render_def foldl_lines split: option.splits)

theorem ServiceError_Error_shape_witness:
  "ServiceError_Error
     \<lparr>CriticalError = Some ErrInternalDb, NonCriticalErrors = [ErrInternalCache, ErrNotFound]\<rparr>
   = ''Service error(s)'' @ newline @ '':internal cache error'' @ newline
       @ ''product not found'' @ newline @ ''internal database error'' @ newline"
  using ServiceError_Error_shape
    [of "\<lparr>CriticalError = Some ErrInternalDb,
          NonCriticalErrors = [ErrInternalCache, ErrNotFound]\<rparr>"]
  by (simp add: spec_render_def ServiceError_header_def)

text \<open>
  C8 as stated fails: the text is not the messages alone. For a result with one
  non-critical and one critical error it differs from the two message lines, because of
  the header.
\<close>

theorem ServiceError_Error_counterexample:
  "ServiceError_Error \<lparr>CriticalError = Some ErrInternalDb, NonCriticalErrors = [ErrInternalCache]\<rparr>
     \<noteq> spec_render \<lparr>CriticalError = Some ErrInternalDb, NonCriticalErrors = [ErrInternalCache]\<rparr>"
  by (simp add: ServiceError_Error_def spec_render_def ServiceError_header_def newline_def)


section \<open>Listing a page\<close>

lemma GetProductsPaged_reachable:
  assumes "0 \<le> limit" and "sizeof_Product * limit \<le> maxAlloc"
      and "sizeof_Product * limit \<le> int grantable"
      and "0 \<le> offset" and "pg_faults d = []"
  shows "PostgresRepository_GetProductsPaged grantable limit offset d
           = (Return (Inr (take (nat limit) (drop (nat offset) (rows d)))), d)"
  using assms
  by (simp add: PostgresRepository_GetProductsPaged_def make_Products_def
        select_limit_offset_def pg_roundtrip_def scan_rows_all)

text \<open>
  What holds of the paged listing. For every \<open>limit \<ge> 1\<close> whose slice the runtime makes
  (it is within \<open>maxAlloc\<close> and within what the system grants the process) and every
  \<open>offset \<ge> 0\<close>, on a reachable store, \<open>GetProductsPaged\<close> of the service over the Postgres
  repository returns, with a nil \<open>*ServiceError\<close>, the page that skips exactly \<open>offset\<close>
  rows of the table and then takes at most \<open>limit\<close> rows, in the table's order: the
  caller's \<open>limit\<close> is the bound, the caller's \<open>offset\<close> the skip count. The page has
  \<open>min limit (rows - offset)\<close> products, so it is shorter than \<open>limit\<close> near the end of the
  table and empty beyond it, and that is not an error.
\<close>

lemma GetProductsPaged_page:
  assumes "1 \<le> limit" and "sizeof_Product * limit \<le> maxAlloc"
      and "sizeof_Product * limit \<le> int grantable" and "0 \<le> offset"
      and "db s = PostgresRepository grantable others" and "pg_faults (db_state w) = []"
  shows "\<exists>page.
           GetProductsPaged s limit offset w =
             (Return (Some page, None),
              w\<lparr>calls := calls w @ [DbGetProductsPaged limit offset]\<rparr>) \<and>
           page = take (nat limit) (drop (nat offset) (rows (db_state w))) \<and>
           length page = min (nat limit) (length (rows (db_state w)) - nat offset) \<and>
           int (length page) \<le> limit \<and>
           (\<forall>i < length page. page ! i = rows (db_state w) ! (nat offset + i)) \<and>
           (int (length (rows (db_state w))) \<le> offset \<longrightarrow> page = [])"
proof -
  let ?page = "take (nat limit) (drop (nat offset) (rows (db_state w)))"
  have "GetProductsPaged s limit offset w =
          (Return (Some ?page, None), w\<lparr>calls := calls w @ [DbGetProductsPaged limit offset]\<rparr>)"
    using assms
    by (simp add: GetProductsPaged_def svc_defs PostgresRepository_def GetProductsPaged_reachable)
  moreover have "length ?page = min (nat limit) (length (rows (db_state w)) - nat offset)"
    by simp
  moreover have "int (length ?page) \<le> limit"
    using assms(1) by simp
  moreover have "\<forall>i < length ?page. ?page ! i = rows (db_state w) ! (nat offset + i)"
    by auto
  moreover have "int (length (rows (db_state w))) \<le> offset \<longrightarrow> ?page = []"
    using assms(4) by auto
  ultimately show ?thesis by blast
qed

lemma GetProductsPaged_page_examples:
  "GetProductsPaged example_service 2 2 world_five
       = (Return (Some [\<lparr>Id = 7, Name = ''p7'', AdditionalInfo = ''i7''\<rparr>,
                        \<lparr>Id = 11, Name = ''p11'', AdditionalInfo = ''i11''\<rparr>], None),
          world_five\<lparr>calls := [DbGetProductsPaged 2 2]\<rparr>)
   \<and> GetProductsPaged example_service 3 4 world_five
       = (Return (Some [\<lparr>Id = 12, Name = ''p12'', AdditionalInfo = ''i12''\<rparr>], None),
          world_five\<lparr>calls := [DbGetProductsPaged 3 4]\<rparr>)
   \<and> GetProductsPaged example_service 3 9 world_five
       = (Return (Some [], None), world_five\<lparr>calls := [DbGetProductsPaged 3 9]\<rparr>)"
proof -
  have repo: "db example_service = PostgresRepository example_grantable alone"
    by (simp add: example_service_def)
  have up: "pg_faults (db_state world_five) = []"
    by (simp add: world_five_def)
  have log: "calls world_five = []"
    by (simp add: world_five_def)
  have table: "rows (db_state world_five) = five_products"
    by (simp add: world_five_def)
  from GetProductsPaged_page [of 2 example_grantable 2, OF _ _ _ _ repo up]
       GetProductsPaged_page [of 3 example_grantable 4, OF _ _ _ _ repo up]
       GetProductsPaged_page [of 3 example_grantable 9, OF _ _ _ _ repo up]
  show ?thesis
    by (simp add: log table five_products_def sizeof_Product_def maxAlloc_def
          example_grantable_def)
qed

text \<open>
  For a limit whose slice the runtime does not make, the repository ends before it sends
  any query, and the service, which calls it, ends with it: with a panic when the slice
  is beyond \<open>maxAlloc\<close>, with the fatal error when it is within \<open>maxAlloc\<close> and beyond what
  the system grants.
\<close>

lemma GetProductsPaged_beyond_maxAlloc:
  assumes "maxAlloc < sizeof_Product * limit"
      and "db s = PostgresRepository grantable others"
  shows "GetProductsPaged s limit offset w =
           (Panic ''runtime error: makeslice: cap out of range'',
            w\<lparr>calls := calls w @ [DbGetProductsPaged limit offset]\<rparr>)"
  using assms
  by (simp add: GetProductsPaged_def svc_defs PostgresRepository_def
        PostgresRepository_GetProductsPaged_def make_Products_def)

lemma GetProductsPaged_out_of_memory:
  assumes "0 \<le> limit" and "sizeof_Product * limit \<le> maxAlloc"
      and "int grantable < sizeof_Product * limit"
      and "db s = PostgresRepository grantable others"
  shows "GetProductsPaged s limit offset w =
           (Panic ''fatal error: out of memory'',
            w\<lparr>calls := calls w @ [DbGetProductsPaged limit offset]\<rparr>)"
  using assms
  by (simp add: GetProductsPaged_def svc_defs PostgresRepository_def
        PostgresRepository_GetProductsPaged_def make_Products_def)

text \<open>
  C3. The claim is that every \<open>limit \<ge> 1\<close> and \<open>offset \<ge> 0\<close> yield a valid list; the code
  does not meet it for every limit. With the largest \<open>int64\<close> as limit and offset 0, on
  the reachable store of five products, \<open>make([]domain.Product, 0, limit)\<close> in the
  repository panics, and \<open>GetProductsPaged\<close> of the service returns neither a list nor an
  error: it panics.
\<close>

theorem GetProductsPaged_largest_limit_panics:
  "GetProductsPaged example_service 9223372036854775807 0 world_five =
     (Panic ''runtime error: makeslice: cap out of range'',
      world_five\<lparr>calls := [DbGetProductsPaged 9223372036854775807 0]\<rparr>)"
  by (simp add: GetProductsPaged_def svc_defs example_service_def world_five_def
        PostgresRepository_def PostgresRepository_GetProductsPaged_def make_Products_def
        sizeof_Product_def maxAlloc_def)

text \<open>
  On the way in from HTTP the two numbers change places. A request for \<open>limit=1\<close> and
  \<open>offset=3\<close> reaches the handler as \<open>offsetInt = 3\<close>, \<open>limitInt = 1\<close>; on the store of five
  products the response lists three products after skipping one, where \<open>limit=1\<close>,
  \<open>offset=3\<close> asks for the fourth product alone. And a request for \<open>limit=1\<close> with the
  largest \<open>int64\<close> as \<open>offset\<close> makes the handler call the service with that number as
  the limit: the request ends in the panic of \<open>make\<close>.
\<close>

lemma ProductHandler_GetProducts_paged_swaps:
  "ProductHandler_GetProducts_paged example_service 3 1 world_five
     = (Return (StatusOK (Some [\<lparr>Id = 3, Name = ''p3'', AdditionalInfo = ''i3''\<rparr>,
                                \<lparr>Id = 7, Name = ''p7'', AdditionalInfo = ''i7''\<rparr>,
                                \<lparr>Id = 11, Name = ''p11'', AdditionalInfo = ''i11''\<rparr>])),
        world_five\<lparr>calls := [DbGetProductsPaged 3 1]\<rparr>)
   \<and> GetProductsPaged example_service 1 3 world_five
     = (Return (Some [\<lparr>Id = 11, Name = ''p11'', AdditionalInfo = ''i11''\<rparr>], None),
        world_five\<lparr>calls := [DbGetProductsPaged 1 3]\<rparr>)
   \<and> ProductHandler_GetProducts_paged example_service 9223372036854775807 1 world_five
     = (Panic ''runtime error: makeslice: cap out of range'',
        world_five\<lparr>calls := [DbGetProductsPaged 9223372036854775807 1]\<rparr>)"
  by (simp add: ProductHandler_GetProducts_paged_def GetProductsPaged_def svc_defs
        example_service_def example_grantable_def world_five_def five_products_def
        PostgresRepository_def PostgresRepository_GetProductsPaged_def make_Products_def
        sizeof_Product_def maxAlloc_def select_limit_offset_def pg_roundtrip_def scan_rows_all)


section \<open>Deleting every product\<close>

text \<open>
  The service clears the cache first. A failure of the clear is returned as critical
  with count 0 and the store is not called: the clear is the only call added to the log
  and the store's state is untouched. After a successful clear the store is called: its
  failure is returned as critical with count 0, its count is returned with a nil
  \<open>*ServiceError\<close>. This holds whatever the cache and the store are.
\<close>

lemma DeleteAllProducts_cache_failure:
  assumes "cache_ClearCache (cache s) (cache_state w) = (Return (Some cacheErr), c')"
  shows "DeleteAllProducts s w =
           (Return (0, Some \<lparr>CriticalError = Some cacheErr, NonCriticalErrors = []\<rparr>),
            w\<lparr>cache_state := c', calls := calls w @ [CacheClearCache]\<rparr>)"
  using assms by (simp add: DeleteAllProducts_def svc_defs)

lemma DeleteAllProducts_store_failure:
  assumes "cache_ClearCache (cache s) (cache_state w) = (Return None, c')"
      and "db_DeleteAllProducts (db s) (db_state w) = (Return (Inl dbErr), d')"
  shows "DeleteAllProducts s w =
           (Return (0, Some \<lparr>CriticalError = Some dbErr, NonCriticalErrors = []\<rparr>),
            w\<lparr>db_state := d', cache_state := c',
              calls := calls w @ [CacheClearCache, DbDeleteAllProducts]\<rparr>)"
  using assms by (simp add: DeleteAllProducts_def svc_defs)

lemma DeleteAllProducts_store_count:
  assumes "cache_ClearCache (cache s) (cache_state w) = (Return None, c')"
      and "db_DeleteAllProducts (db s) (db_state w) = (Return (Inr rowsDeleted), d')"
  shows "DeleteAllProducts s w =
           (Return (rowsDeleted, None),
            w\<lparr>db_state := d', cache_state := c',
              calls := calls w @ [CacheClearCache, DbDeleteAllProducts]\<rparr>)"
  using assms by (simp add: DeleteAllProducts_def svc_defs)

text \<open>
  The Redis adapter's clear: on a reachable server it leaves no key, whatever the cache
  held; when the command fails, the keys stay and the error wraps \<open>ErrInternalCache\<close>.
\<close>

lemma RedisCache_ClearCache_empties:
  assumes "redis_faults r = [] \<or> (\<exists>fs. redis_faults r = None # fs)"
  shows "fst (RedisCache_ClearCache r) = Return None"
    and "kv (snd (RedisCache_ClearCache r)) = (\<lambda>k. None)"
  using assms
  by (auto simp add: RedisCache_ClearCache_def client_FlushDB_def redis_roundtrip_def)

lemma RedisCache_ClearCache_fails:
  assumes "redis_faults r = Some msg # fs"
  shows "RedisCache_ClearCache r =
           (Return (Some (Errorf '''' ErrInternalCache ('': failed to clear cache: '' @ msg))),
            r\<lparr>redis_faults := fs\<rparr>)"
  using assms
  by (simp add: RedisCache_ClearCache_def client_FlushDB_def redis_roundtrip_def)

text \<open>
  The Postgres repository's delete-all with no other client at work is all or nothing:
  when its four round trips succeed it returns the number of rows the table held and the
  table is empty; when one of them fails it returns an error wrapping \<open>ErrInternalDb\<close> and
  the table is unchanged.
\<close>

lemma DeleteAllProducts_committed:
  assumes "four_round_trips_ok d"
  shows "fst (PostgresRepository_DeleteAllProducts alone d)
           = Return (Inr (int (length (rows d))))"
    and "rows (snd (PostgresRepository_DeleteAllProducts alone d)) = []"
proof -
  have "fst (PostgresRepository_DeleteAllProducts alone d)
          = Return (Inr (int (length (rows d))))
        \<and> rows (snd (PostgresRepository_DeleteAllProducts alone d)) = []"
  proof (cases "pg_faults d")
    case Nil
    then show ?thesis by (simp add: pg_defs)
  next
    case (Cons f1 fs1)
    note c1 = this
    show ?thesis
    proof (cases fs1)
      case Nil
      with c1 assms show ?thesis by (simp add: pg_defs four_round_trips_ok_def)
    next
      case (Cons f2 fs2)
      note c2 = this
      show ?thesis
      proof (cases fs2)
        case Nil
        with c1 c2 assms show ?thesis by (simp add: pg_defs four_round_trips_ok_def)
      next
        case (Cons f3 fs3)
        with c1 c2 assms show ?thesis
          by (cases fs3) (simp_all add: pg_defs four_round_trips_ok_def)
      qed
    qed
  qed
  then show "fst (PostgresRepository_DeleteAllProducts alone d)
               = Return (Inr (int (length (rows d))))"
    and "rows (snd (PostgresRepository_DeleteAllProducts alone d)) = []"
    by simp_all
qed

lemma DeleteAllProducts_rolled_back:
  assumes "\<not> four_round_trips_ok d"
  shows "\<exists>e. fst (PostgresRepository_DeleteAllProducts alone d) = Return (Inl e)
             \<and> errors_Is e ErrInternalDb"
    and "rows (snd (PostgresRepository_DeleteAllProducts alone d)) = rows d"
proof -
  have "(\<exists>e. fst (PostgresRepository_DeleteAllProducts alone d) = Return (Inl e)
             \<and> errors_Is e ErrInternalDb)
        \<and> rows (snd (PostgresRepository_DeleteAllProducts alone d)) = rows d"
  proof (cases "pg_faults d")
    case Nil
    with assms show ?thesis by (simp add: four_round_trips_ok_def)
  next
    case (Cons f1 fs1)
    note c1 = this
    show ?thesis
    proof (cases fs1)
      case Nil
      with c1 assms show ?thesis
        by (auto simp add: pg_defs four_round_trips_ok_def split: option.splits)
    next
      case (Cons f2 fs2)
      note c2 = this
      show ?thesis
      proof (cases fs2)
        case Nil
        with c1 c2 assms show ?thesis
          by (auto simp add: pg_defs four_round_trips_ok_def split: option.splits)
      next
        case (Cons f3 fs3)
        with c1 c2 assms show ?thesis
          by (cases fs3) (auto simp add: pg_defs four_round_trips_ok_def split: option.splits)
      qed
    qed
  qed
  then show "\<exists>e. fst (PostgresRepository_DeleteAllProducts alone d) = Return (Inl e)
             \<and> errors_Is e ErrInternalDb"
    and "rows (snd (PostgresRepository_DeleteAllProducts alone d)) = rows d"
    by simp_all
qed

text \<open>
  With other clients at work, on a reachable store: the count returned is the number of
  rows the table held when it was counted, and the table is emptied of what it holds
  when it is truncated, which is what the other clients have made of it by then.
\<close>

lemma DeleteAllProducts_beside_others:
  assumes "pg_faults d = []" and "pg_faults (others d) = []"
  shows "PostgresRepository_DeleteAllProducts others d
           = (Return (Inr (int (length (rows d)))), (others d)\<lparr>rows := []\<rparr>)"
  using assms
  by (simp add: PostgresRepository_DeleteAllProducts_def db_Begin_def tx_select_count_def
        tx_truncate_def tx_Commit_def tx_Rollback_def pg_roundtrip_def)

text \<open>
  The whole operation over the two adapters, with no other client at work and the cache
  reachable: the result carries a count and an error, and the count is the number of
  rows the call removed from the table. Either the transaction commits, the error is
  nil and the table is empty, or it does not, the error is critical and wraps
  \<open>ErrInternalDb\<close>, the count is 0 and the table is unchanged; both ways the cache holds
  no key afterwards.
\<close>

lemma DeleteAllProducts_alone:
  assumes "db s = PostgresRepository grantable alone"
      and "cache s = RedisCache json_Marshal"
      and "redis_faults (cache_state w) = []"
  shows "\<exists>n e w'.
           DeleteAllProducts s w = (Return (n, e), w') \<and>
           calls w' = calls w @ [CacheClearCache, DbDeleteAllProducts] \<and>
           kv (cache_state w') = (\<lambda>k. None) \<and>
           n = int (length (rows (db_state w))) - int (length (rows (db_state w'))) \<and>
           (if four_round_trips_ok (db_state w)
            then e = None \<and> rows (db_state w') = []
            else (\<exists>dbErr. e = Some \<lparr>CriticalError = Some dbErr, NonCriticalErrors = []\<rparr>
                           \<and> errors_Is dbErr ErrInternalDb)
                 \<and> rows (db_state w') = rows (db_state w))"
proof -
  obtain r d' where run: "PostgresRepository_DeleteAllProducts alone (db_state w) = (r, d')"
    by (cases "PostgresRepository_DeleteAllProducts alone (db_state w)")
  have clear: "cache_ClearCache (cache s) (cache_state w)
                 = (Return None, (cache_state w)\<lparr>kv := (\<lambda>k. None)\<rparr>)"
    using assms(2,3)
    by (simp add: RedisCache_def RedisCache_ClearCache_def client_FlushDB_def
          redis_roundtrip_def)
  show ?thesis
  proof (cases "four_round_trips_ok (db_state w)")
    case True
    from DeleteAllProducts_committed [OF True] run
    have "r = Return (Inr (int (length (rows (db_state w)))))" and "rows d' = []"
      by simp_all
    with assms(1) clear run True show ?thesis
      by (simp add: DeleteAllProducts_def svc_defs PostgresRepository_def)
  next
    case False
    from DeleteAllProducts_rolled_back [OF False] run
    obtain dbErr where "r = Return (Inl dbErr)" and "errors_Is dbErr ErrInternalDb"
      and "rows d' = rows (db_state w)"
      by auto
    with assms(1) clear run False show ?thesis
      by (simp add: DeleteAllProducts_def svc_defs PostgresRepository_def)
  qed
qed

lemma DeleteAllProducts_examples:
  "DeleteAllProducts example_service world_44_cache_down
     = (Return (0, Some \<lparr>CriticalError =
                            Some (Errorf '''' ErrInternalCache
                              '': failed to clear cache: dial tcp: connection refused''),
                          NonCriticalErrors = []\<rparr>),
        world_44\<lparr>calls := [CacheClearCache]\<rparr>)
   \<and> DeleteAllProducts example_service world_44_cached
     = (Return (1, None),
        \<lparr>db_state = \<lparr>rows = [], next_id = 45, pg_faults = []\<rparr>,
          cache_state = \<lparr>kv = (\<lambda>k. None), redis_faults = []\<rparr>,
          calls = [CacheGetJSONProductById 44, DbGetProduct 44, CacheSetProduct product_44,
                   CacheClearCache, DbDeleteAllProducts]\<rparr>)
   \<and> DeleteAllProducts example_service world_five
     = (Return (5, None),
        \<lparr>db_state = \<lparr>rows = [], next_id = 13, pg_faults = []\<rparr>,
          cache_state = \<lparr>kv = (\<lambda>k. None), redis_faults = []\<rparr>,
          calls = [CacheClearCache, DbDeleteAllProducts]\<rparr>)
   \<and> DeleteAllProducts example_service world_44_store_down
     = (Return (0, Some \<lparr>CriticalError =
                            Some (Errorf '''' ErrInternalDb
                              '': failed to start transaction. dial tcp: connection refused''),
                          NonCriticalErrors = []\<rparr>),
        world_44\<lparr>calls := [CacheClearCache, DbDeleteAllProducts]\<rparr>)"
  by (simp add: DeleteAllProducts_def svc_defs example_defs redis_defs pg_defs)

text \<open>
  C4. The claim is that the store's delete-all counts and truncates as one unit, so that
  the count returned is the number of rows removed. The repository counts and truncates
  in one transaction, but at the default isolation and with no lock on the table before
  \<open>TRUNCATE\<close>, and the code does not meet the claim when another client commits between
  the two statements. The store holds product 44 and the cache its document; while
  \<open>DeleteAllProducts\<close> runs, another client stores a product \<open>B\<close> after the count and before
  the truncate. The cache is cleared first and then the store is called, as claimed; the
  table holds two rows when it is truncated, the rows 44 and 45, and is empty afterwards;
  the call returns the count 1 with a nil \<open>*ServiceError\<close>.
\<close>

theorem DeleteAllProducts_count_is_stale:
  "DeleteAllProducts example_service_beside world_44_cached
     = (Return (1, None),
        \<lparr>db_state = \<lparr>rows = [], next_id = 46, pg_faults = []\<rparr>,
          cache_state = \<lparr>kv = (\<lambda>k. None), redis_faults = []\<rparr>,
          calls = [CacheGetJSONProductById 44, DbGetProduct 44, CacheSetProduct product_44,
                   CacheClearCache, DbDeleteAllProducts]\<rparr>)
   \<and> rows (db_state world_44_cached) = [product_44]
   \<and> rows (other_client_stores \<lparr>NewProduct.Name = ''B'', AdditionalInfo = ''infoB''\<rparr>
             (db_state world_44_cached))
     = [product_44, \<lparr>Id = 45, Name = ''B'', AdditionalInfo = ''infoB''\<rparr>]"
  by (simp add: DeleteAllProducts_def svc_defs example_defs redis_defs pg_defs)


section \<open>Create, then read\<close>

lemma RedisCache_set_then_get:
  assumes "json_Marshal p = Inr data" and "redis_faults r = []"
  shows "RedisCache_SetProduct json_Marshal p r
           = (Return None, r\<lparr>kv := (kv r)(createKey (Id p) \<mapsto> data)\<rparr>)"
    and "RedisCache_GetJSONProductById (Id p) (r\<lparr>kv := (kv r)(createKey (Id p) \<mapsto> data)\<rparr>)
           = (Return (Inr data), r\<lparr>kv := (kv r)(createKey (Id p) \<mapsto> data)\<rparr>)"
  using assms
  by (simp_all add: RedisCache_SetProduct_def RedisCache_GetJSONProductById_def client_Set_def
        client_Get_def redis_roundtrip_def)

text \<open>
  C5. For every \<open>NewProduct\<close>, over the Redis cache with no fault pending and any store
  whose insert returns an id: \<open>CreateProduct\<close> returns that id with a nil \<open>*ServiceError\<close>,
  and \<open>GetProductById\<close> on that id, run next, returns with a nil \<open>*ServiceError\<close> the
  serialization of the product made of the assigned id and the submitted name and
  additional info. The read is served by the cache: the calls of the two operations
  are the insert, the cache write and the cache lookup, no read of the store, and the
  store's state is the one the insert left.
\<close>

theorem create_then_get_roundtrip:
  assumes "cache s = RedisCache json_Marshal"
      and "redis_faults (cache_state w) = []"
      and "db_StoreProduct (db s) product (db_state w) = (Return (Inr pid), d')"
      and "json_Marshal \<lparr>Id = pid, Name = NewProduct.Name product,
                         AdditionalInfo = NewProduct.AdditionalInfo product\<rparr> = Inr data"
  shows "\<exists>w1 w2.
           CreateProduct s product w = (Return (pid, None), w1) \<and>
           GetProductById json_Marshal s pid w1 = (Return (Some data, None), w2) \<and>
           calls w2 = calls w @
             [DbStoreProduct product,
              CacheSetProduct \<lparr>Id = pid, Name = NewProduct.Name product,
                               AdditionalInfo = NewProduct.AdditionalInfo product\<rparr>,
              CacheGetJSONProductById pid] \<and>
           db_state w2 = d'"
  using assms
    RedisCache_set_then_get
      [of json_Marshal "\<lparr>Id = pid, Name = NewProduct.Name product,
                          AdditionalInfo = NewProduct.AdditionalInfo product\<rparr>" data
          "cache_state w"]
  by (simp add: CreateProduct_def GetProductById_def svc_defs RedisCache_def)

theorem create_then_get_roundtrip_witness:
  \<open>cache example_service = RedisCache json_Marshal_plain
   \<and> redis_faults (cache_state world_44) = []
   \<and> fst (db_StoreProduct (db example_service)
            \<lparr>NewProduct.Name = ''B'', AdditionalInfo = ''infoB''\<rparr> (db_state world_44))
       = Return (Inr 45)
   \<and> fst (CreateProduct example_service
            \<lparr>NewProduct.Name = ''B'', AdditionalInfo = ''infoB''\<rparr> world_44)
       = Return (45, None)
   \<and> fst (GetProductById json_Marshal_plain example_service 45
            (snd (CreateProduct example_service
                    \<lparr>NewProduct.Name = ''B'', AdditionalInfo = ''infoB''\<rparr> world_44)))
       = Return (Some ''{"id":45,"name":"B","additionalInfo":"infoB"}'', None)
   \<and> calls (snd (GetProductById json_Marshal_plain example_service 45
            (snd (CreateProduct example_service
                    \<lparr>NewProduct.Name = ''B'', AdditionalInfo = ''infoB''\<rparr> world_44))))
       = [DbStoreProduct \<lparr>NewProduct.Name = ''B'', AdditionalInfo = ''infoB''\<rparr>,
          CacheSetProduct \<lparr>Id = 45, Name = ''B'', AdditionalInfo = ''infoB''\<rparr>,
          CacheGetJSONProductById 45]\<close>
proof -
  let ?np = "\<lparr>NewProduct.Name = ''B'', AdditionalInfo = ''infoB''\<rparr>"
  let ?d = "\<lparr>rows = [product_44, \<lparr>Id = 45, Name = ''B'', AdditionalInfo = ''infoB''\<rparr>],
             next_id = 46, pg_faults = []\<rparr>"
  have redis: "cache example_service = RedisCache json_Marshal_plain"
    by (simp add: example_service_def)
  have up: "redis_faults (cache_state world_44) = []"
    by (simp add: world_44_def)
  have stored: "db_StoreProduct (db example_service) ?np (db_state world_44)
      = (Return (Inr 45), ?d)"
    by (simp add: example_defs pg_defs)
  have doc: \<open>json_Marshal_plain \<lparr>Id = 45, Name = NewProduct.Name ?np,
                                  AdditionalInfo = NewProduct.AdditionalInfo ?np\<rparr>
               = Inr ''{"id":45,"name":"B","additionalInfo":"infoB"}''\<close>
    by (simp add: example_defs)
  have log: "calls world_44 = []"
    by (simp add: world_44_def)
  from create_then_get_roundtrip [OF redis up stored doc] redis up stored log
  show ?thesis by auto
qed


section \<open>Critical errors and values\<close>

lemma GetProductById_result:
  assumes "GetProductById json_Marshal s pid w = (Return (v, Some se), w')"
  shows "(CriticalError se \<noteq> None \<longrightarrow> v = None) \<and>
         (CriticalError se = None \<longrightarrow>
            NonCriticalErrors se \<noteq> [] \<and>
            (\<exists>p data. v = Some data \<and> json_Marshal p = Inr data \<and>
               fst (db_GetProduct (db s) pid (db_state w)) = Return (Inr p)))"
  using assms
  by (auto simp add: GetProductById_def svc_defs
        split: prod.splits go.splits sum.splits option.splits if_splits)

lemma GetAllProducts_result:
  assumes "GetAllProducts s w = (Return (v, Some se), w')"
  shows "CriticalError se \<noteq> None \<and> v = None"
  using assms
  by (auto simp add: GetAllProducts_def svc_defs split: prod.splits go.splits sum.splits)

lemma GetProductsPaged_result:
  assumes "GetProductsPaged s limit offset w = (Return (v, Some se), w')"
  shows "CriticalError se \<noteq> None \<and> v = None"
  using assms
  by (auto simp add: GetProductsPaged_def svc_defs split: prod.splits go.splits sum.splits)

lemma CreateProduct_result:
  assumes "CreateProduct s product w = (Return (v, Some se), w')"
  shows "(CriticalError se \<noteq> None \<longrightarrow> v = 0) \<and>
         (CriticalError se = None \<longrightarrow>
            NonCriticalErrors se \<noteq> [] \<and>
            fst (db_StoreProduct (db s) product (db_state w)) = Return (Inr v))"
  using assms
  by (auto simp add: CreateProduct_def svc_defs
        split: prod.splits go.splits sum.splits option.splits)

lemma UpdateProductById_result:
  assumes "UpdateProductById s pid product w = (Return (v, Some se), w')"
  shows "(CriticalError se \<noteq> None \<longrightarrow> v = None) \<and>
         (CriticalError se = None \<longrightarrow>
            NonCriticalErrors se \<noteq> [] \<and>
            (\<exists>p. v = Some p \<and>
               fst (db_UpdateProductById (db s) pid product (db_state w)) = Return (Inr p)))"
  using assms
  by (auto simp add: UpdateProductById_def svc_defs
        split: prod.splits go.splits sum.splits option.splits if_splits)

lemma DeleteProductById_result:
  assumes "DeleteProductById s pid w = (Return (v, Some se), w')"
  shows "(CriticalError se \<noteq> None \<longrightarrow> v = None) \<and>
         (CriticalError se = None \<longrightarrow>
            NonCriticalErrors se \<noteq> [] \<and>
            (\<exists>p. v = Some p \<and>
               fst (db_DeleteProductById (db s) pid (db_state w)) = Return (Inr p)))"
  using assms
  by (auto simp add: DeleteProductById_def svc_defs
        split: prod.splits go.splits sum.splits option.splits if_splits)

lemma DeleteAllProducts_result:
  assumes "DeleteAllProducts s w = (Return (v, Some se), w')"
  shows "CriticalError se \<noteq> None \<and> v = 0"
  using assms
  by (auto simp add: DeleteAllProducts_def svc_defs
        split: prod.splits go.splits sum.splits option.splits)

text \<open>
  C9. For each of the seven operations of the service, over any store and any cache and
  whatever they return: when the operation returns a \<open>ServiceError\<close> with a critical
  error, the value next to it is nil (for \<open>CreateProduct\<close> and \<open>DeleteAllProducts\<close>, 0);
  when it returns a \<open>ServiceError\<close> with no critical error, that result carries at least
  one non-critical error and the value is present and is the store's own answer to this
  call: the serialization of the product the store returned (\<open>GetProductById\<close>), the id
  the store assigned (\<open>CreateProduct\<close>), the product the store returned
  (\<open>UpdateProductById\<close>, \<open>DeleteProductById\<close>). The two listings and \<open>DeleteAllProducts\<close>
  never return a \<open>ServiceError\<close> without a critical error.
\<close>

theorem critical_error_excludes_value:
  "(GetProductById json_Marshal s pid w = (Return (bytes, Some se1), w1) \<longrightarrow>
      (CriticalError se1 \<noteq> None \<longrightarrow> bytes = None) \<and>
      (CriticalError se1 = None \<longrightarrow>
         NonCriticalErrors se1 \<noteq> [] \<and>
         (\<exists>p data. bytes = Some data \<and> json_Marshal p = Inr data \<and>
            fst (db_GetProduct (db s) pid (db_state w)) = Return (Inr p))))
   \<and> (GetAllProducts s w = (Return (listed, Some se2), w2) \<longrightarrow>
      CriticalError se2 \<noteq> None \<and> listed = None)
   \<and> (GetProductsPaged s limit offset w = (Return (paged, Some se3), w3) \<longrightarrow>
      CriticalError se3 \<noteq> None \<and> paged = None)
   \<and> (CreateProduct s product w = (Return (newId, Some se4), w4) \<longrightarrow>
      (CriticalError se4 \<noteq> None \<longrightarrow> newId = 0) \<and>
      (CriticalError se4 = None \<longrightarrow>
         NonCriticalErrors se4 \<noteq> [] \<and>
         fst (db_StoreProduct (db s) product (db_state w)) = Return (Inr newId)))
   \<and> (UpdateProductById s pid product w = (Return (old, Some se5), w5) \<longrightarrow>
      (CriticalError se5 \<noteq> None \<longrightarrow> old = None) \<and>
      (CriticalError se5 = None \<longrightarrow>
         NonCriticalErrors se5 \<noteq> [] \<and>
         (\<exists>p. old = Some p \<and>
            fst (db_UpdateProductById (db s) pid product (db_state w)) = Return (Inr p))))
   \<and> (DeleteProductById s pid w = (Return (deleted, Some se6), w6) \<longrightarrow>
      (CriticalError se6 \<noteq> None \<longrightarrow> deleted = None) \<and>
      (CriticalError se6 = None \<longrightarrow>
         NonCriticalErrors se6 \<noteq> [] \<and>
         (\<exists>p. deleted = Some p \<and>
            fst (db_DeleteProductById (db s) pid (db_state w)) = Return (Inr p))))
   \<and> (DeleteAllProducts s w = (Return (rowsDeleted, Some se7), w7) \<longrightarrow>
      CriticalError se7 \<noteq> None \<and> rowsDeleted = 0)"
proof (intro conjI impI)
  assume "GetProductById json_Marshal s pid w = (Return (bytes, Some se1), w1)"
  note r = GetProductById_result [OF this]
  { assume "CriticalError se1 \<noteq> None" with r show "bytes = None" by blast }
  { assume "CriticalError se1 = None"
    with r show "NonCriticalErrors se1 \<noteq> []"
      and "\<exists>p data. bytes = Some data \<and> json_Marshal p = Inr data \<and>
             fst (db_GetProduct (db s) pid (db_state w)) = Return (Inr p)"
      by blast+ }
next
  assume "GetAllProducts s w = (Return (listed, Some se2), w2)"
  from GetAllProducts_result [OF this]
  show "CriticalError se2 \<noteq> None" and "listed = None" by blast+
next
  assume "GetProductsPaged s limit offset w = (Return (paged, Some se3), w3)"
  from GetProductsPaged_result [OF this]
  show "CriticalError se3 \<noteq> None" and "paged = None" by blast+
next
  assume "CreateProduct s product w = (Return (newId, Some se4), w4)"
  note r = CreateProduct_result [OF this]
  { assume "CriticalError se4 \<noteq> None" with r show "newId = 0" by blast }
  { assume "CriticalError se4 = None"
    with r show "NonCriticalErrors se4 \<noteq> []"
      and "fst (db_StoreProduct (db s) product (db_state w)) = Return (Inr newId)"
      by blast+ }
next
  assume "UpdateProductById s pid product w = (Return (old, Some se5), w5)"
  note r = UpdateProductById_result [OF this]
  { assume "CriticalError se5 \<noteq> None" with r show "old = None" by blast }
  { assume "CriticalError se5 = None"
    with r show "NonCriticalErrors se5 \<noteq> []"
      and "\<exists>p. old = Some p \<and>
             fst (db_UpdateProductById (db s) pid product (db_state w)) = Return (Inr p)"
      by blast+ }
next
  assume "DeleteProductById s pid w = (Return (deleted, Some se6), w6)"
  note r = DeleteProductById_result [OF this]
  { assume "CriticalError se6 \<noteq> None" with r show "deleted = None" by blast }
  { assume "CriticalError se6 = None"
    with r show "NonCriticalErrors se6 \<noteq> []"
      and "\<exists>p. deleted = Some p \<and>
             fst (db_DeleteProductById (db s) pid (db_state w)) = Return (Inr p)"
      by blast+ }
next
  assume "DeleteAllProducts s w = (Return (rowsDeleted, Some se7), w7)"
  from DeleteAllProducts_result [OF this]
  show "CriticalError se7 \<noteq> None" and "rowsDeleted = 0" by blast+
qed

theorem critical_error_excludes_value_witness:
  "GetProductById json_Marshal_plain example_service 44 world_44
     = (Return (Some doc_44,
                Some \<lparr>CriticalError = None,
                      NonCriticalErrors =
                        [Errorf '''' ErrNotFound '': failed to find product 44 in cache'']\<rparr>),
        world_44_cached)
   \<and> (\<exists>p. json_Marshal_plain p = Inr doc_44 \<and>
          fst (db_GetProduct (db example_service) 44 (db_state world_44)) = Return (Inr p))
   \<and> DeleteProductById example_service 44 world_44_cache_down
     = (Return (None,
                Some \<lparr>CriticalError =
                        Some (Errorf '''' ErrInternalCache
                          '': failed to delete product 44 from cache: dial tcp: connection refused''),
                      NonCriticalErrors = []\<rparr>),
        world_44\<lparr>calls := [CacheDeleteProductById 44]\<rparr>)"
proof -
  let ?miss = "\<lparr>CriticalError = None,
               NonCriticalErrors =
                 [Errorf '''' ErrNotFound '': failed to find product 44 in cache'']\<rparr>"
  let ?down = "\<lparr>CriticalError =
                 Some (Errorf '''' ErrInternalCache
                   '': failed to delete product 44 from cache: dial tcp: connection refused''),
               NonCriticalErrors = []\<rparr>"
  have read: "GetProductById json_Marshal_plain example_service 44 world_44
      = (Return (Some doc_44, Some ?miss), world_44_cached)"
    by (simp add: GetProductById_def svc_defs example_defs redis_defs pg_defs createKey_def)
  have delete: "DeleteProductById example_service 44 world_44_cache_down
      = (Return (None, Some ?down), world_44\<lparr>calls := [CacheDeleteProductById 44]\<rparr>)"
    by (simp add: DeleteProductById_def svc_defs example_defs redis_defs)
  from critical_error_excludes_value
         [where json_Marshal = json_Marshal_plain and s = example_service and pid = 44
            and w = world_44, THEN conjunct1, rule_format, OF read]
       critical_error_excludes_value
         [where s = example_service and pid = 44 and w = world_44_cache_down,
          THEN conjunct2, THEN conjunct2, THEN conjunct2, THEN conjunct2, THEN conjunct2,
          THEN conjunct1, rule_format, OF delete]
       read delete
  show ?thesis by simp
qed

end
